theory Spec2Isabelle
  imports Complex_Main
begin

section \<open>Double-precision values\<close>

text \<open>
  The simulation computes with C++ \<open>double\<close>. A \<open>double\<close> is modelled as a real number or
  one of the three special values of IEEE 754: the finite values carry exact real
  arithmetic (rounding, overflow and underflow are left out), and the special values follow
  the IEEE rules, so that a division by zero is visible in the model as it is in the
  program: it traps nothing and yields an infinity or a NaN.

  The model has one zero. It stands for \<open>+0.0\<close>, which is the sign of both divisors of the
  program whenever they are zero: \<open>dist * dist * dist\<close> is a product of sums of a square
  root and \<open>EPS\<close>, and \<open>totalMass\<close> is an accumulator that starts at \<open>0.0\<close>.
\<close>

datatype double = Fin real | PInf | NInf | NaN

fun is_finite :: "double \<Rightarrow> bool" where
  "is_finite (Fin a) = True"
| "is_finite _ = False"

fun is_inf :: "double \<Rightarrow> bool" where
  "is_inf PInf = True"
| "is_inf NInf = True"
| "is_inf _ = False"

text \<open>The sign bit: set for the negative numbers and for minus infinity.\<close>

fun signbit :: "double \<Rightarrow> bool" where
  "signbit (Fin a) = (a < 0)"
| "signbit NInf = True"
| "signbit _ = False"

text \<open>The real number a finite value stands for.\<close>

fun valof :: "double \<Rightarrow> real" where
  "valof (Fin a) = a"
| "valof _ = 0"

definition signed_inf :: "bool \<Rightarrow> double" where
  "signed_inf negative = (if negative then NInf else PInf)"

instantiation double :: "{zero, one, plus, uminus, minus, times, divide}"
begin

definition zero_double :: double where
  "zero_double = Fin 0"

definition one_double :: double where
  "one_double = Fin 1"

fun plus_double :: "double \<Rightarrow> double \<Rightarrow> double" where
  "plus_double NaN b = NaN"
| "plus_double a NaN = NaN"
| "plus_double PInf NInf = NaN"
| "plus_double NInf PInf = NaN"
| "plus_double PInf b = PInf"
| "plus_double a PInf = PInf"
| "plus_double NInf b = NInf"
| "plus_double a NInf = NInf"
| "plus_double (Fin a) (Fin b) = Fin (a + b)"

fun uminus_double :: "double \<Rightarrow> double" where
  "uminus_double (Fin a) = Fin (- a)"
| "uminus_double PInf = NInf"
| "uminus_double NInf = PInf"
| "uminus_double NaN = NaN"

definition minus_double :: "double \<Rightarrow> double \<Rightarrow> double" where
  "minus_double a b = a + (- b)"

definition times_double :: "double \<Rightarrow> double \<Rightarrow> double" where
  "times_double a b =
     (if a = NaN \<or> b = NaN \<or> (a = Fin 0 \<and> is_inf b) \<or> (is_inf a \<and> b = Fin 0) then NaN
      else if is_inf a \<or> is_inf b then signed_inf (signbit a \<noteq> signbit b)
      else Fin (valof a * valof b))"

definition divide_double :: "double \<Rightarrow> double \<Rightarrow> double" where
  "divide_double a b =
     (if a = NaN \<or> b = NaN \<or> (a = Fin 0 \<and> b = Fin 0) \<or> (is_inf a \<and> is_inf b) then NaN
      else if is_inf a \<or> b = Fin 0 then signed_inf (signbit a \<noteq> signbit b)
      else if is_inf b then Fin 0
      else Fin (valof a / valof b))"

instance ..

end

instantiation double :: inverse
begin

definition inverse_double :: "double \<Rightarrow> double" where
  "inverse_double a = divide (Fin 1) a"

instance ..

end

text \<open>\<open>std::sqrt\<close>: NaN below zero.\<close>

fun dsqrt :: "double \<Rightarrow> double" where
  "dsqrt (Fin a) = (if a < 0 then NaN else Fin (sqrt a))"
| "dsqrt PInf = PInf"
| "dsqrt NInf = NaN"
| "dsqrt NaN = NaN"

section \<open>Physics constants\<close>

text \<open>\<open>NBodySimulation/main.cpp\<close>, lines 14 to 16. \<open>M_PI\<close> is taken as \<open>\<pi>\<close>.\<close>

definition G :: double where
  "G = Fin (4 * pi * pi)"

definition dt :: double where
  "dt = Fin (5 / 10000)"

definition EPS :: double where
  "EPS = Fin (1 / 10 ^ 10)"

section \<open>Vectors and bodies\<close>

record Vec3 =
  x :: double
  y :: double
  z :: double

text \<open>
  The five operators of the source on \<open>Vec3\<close> (lines 26 to 40) and \<open>norm\<close> (line 41). The
  two multiplications both compute \<open>a.x * scalar\<close>.
\<close>

definition vec_add :: "Vec3 \<Rightarrow> Vec3 \<Rightarrow> Vec3" where
  "vec_add a b = \<lparr>x = x a + x b, y = y a + y b, z = z a + z b\<rparr>"

definition vec_sub :: "Vec3 \<Rightarrow> Vec3 \<Rightarrow> Vec3" where
  "vec_sub a b = \<lparr>x = x a - x b, y = y a - y b, z = z a - z b\<rparr>"

definition vec_mul :: "Vec3 \<Rightarrow> double \<Rightarrow> Vec3" where
  "vec_mul a scalar = \<lparr>x = x a * scalar, y = y a * scalar, z = z a * scalar\<rparr>"

definition scalar_mul :: "double \<Rightarrow> Vec3 \<Rightarrow> Vec3" where
  "scalar_mul scalar a = \<lparr>x = x a * scalar, y = y a * scalar, z = z a * scalar\<rparr>"

definition vec_div :: "Vec3 \<Rightarrow> double \<Rightarrow> Vec3" where
  "vec_div a scalar = \<lparr>x = x a / scalar, y = y a / scalar, z = z a / scalar\<rparr>"

definition norm3 :: "Vec3 \<Rightarrow> double" where
  "norm3 v = dsqrt (x v * x v + y v * y v + z v * z v)"

definition vec_zero :: Vec3 where
  "vec_zero = \<lparr>x = 0, y = 0, z = 0\<rparr>"

text \<open>
  A body, without its \<open>shape\<close> and \<open>trail\<close>: the physics functions neither read nor
  write these two fields.
\<close>

record Body =
  mass :: double
  position :: Vec3
  velocity :: Vec3
  acceleration :: Vec3

section \<open>computeAccelerations\<close>

text \<open>
  Lines 57 to 81. The body of the inner loop, for the pair \<open>(i, j)\<close>: first the force
  (lines 64 to 71), then the two assignments (lines 74 to 78), the second of which reads
  the list the first has written.
\<close>

definition pair_force :: "Body list \<Rightarrow> nat \<Rightarrow> nat \<Rightarrow> Vec3" where
  "pair_force bodies i j =
     (let r = vec_sub (position (bodies ! j)) (position (bodies ! i));
          dist = norm3 r + EPS;
          invDist3 = Fin 1 / (dist * dist * dist)
      in vec_mul r (G * invDist3))"

definition pair_step :: "nat \<Rightarrow> nat \<Rightarrow> Body list \<Rightarrow> Body list" where
  "pair_step i j bodies =
     (let force = pair_force bodies i j;
          bodies1 = bodies[i := (bodies ! i)\<lparr>acceleration :=
                      vec_add (acceleration (bodies ! i)) (scalar_mul (mass (bodies ! j)) force)\<rparr>];
          bodies2 = bodies1[j := (bodies1 ! j)\<lparr>acceleration :=
                      vec_sub (acceleration (bodies1 ! j)) (scalar_mul (mass (bodies1 ! i)) force)\<rparr>]
      in bodies2)"

lemma length_pair_step [simp]: "length (pair_step i j bodies) = length bodies"
  by (simp add: pair_step_def Let_def)

text \<open>The inner loop, \<open>for (j = i + 1; j < bodies.size(); ++j)\<close>, entered at \<open>j\<close>.\<close>

function inner_loop :: "nat \<Rightarrow> nat \<Rightarrow> Body list \<Rightarrow> Body list" where
  "inner_loop i j bodies =
     (if j < length bodies then inner_loop i (j + 1) (pair_step i j bodies) else bodies)"
  by pat_completeness auto
termination
  by (relation "measure (\<lambda>(i, j, bodies). length bodies - j)") auto

declare inner_loop.simps [simp del]

lemma length_inner_loop [simp]: "length (inner_loop i j bodies) = length bodies"
  by (induction i j bodies rule: inner_loop.induct) (subst inner_loop.simps, simp)

text \<open>The outer loop, \<open>for (i = 0; i < bodies.size(); ++i)\<close>, entered at \<open>i\<close>.\<close>

function outer_loop :: "nat \<Rightarrow> Body list \<Rightarrow> Body list" where
  "outer_loop i bodies =
     (if i < length bodies then outer_loop (i + 1) (inner_loop i (i + 1) bodies) else bodies)"
  by pat_completeness auto
termination
  by (relation "measure (\<lambda>(i, bodies). length bodies - i)") auto

declare outer_loop.simps [simp del]

definition reset_acceleration :: "Body \<Rightarrow> Body" where
  "reset_acceleration b = b\<lparr>acceleration := vec_zero\<rparr>"

definition computeAccelerations :: "Body list \<Rightarrow> Body list" where
  "computeAccelerations bodies = outer_loop 0 (map reset_acceleration bodies)"

lemma length_outer_loop [simp]: "length (outer_loop i bodies) = length bodies"
  by (induction i bodies rule: outer_loop.induct) (subst outer_loop.simps, simp)

lemma length_computeAccelerations [simp]:
  "length (computeAccelerations bodies) = length bodies"
  by (simp add: computeAccelerations_def)

section \<open>velocityVerlet\<close>

text \<open>
  Lines 86 to 109.
  \<open>oldAcc\<close> is a \<open>static\<close> local of the function: one vector for the whole process, which
  keeps its contents from one call to the next. The model passes it in and returns it.
  \<open>resize\<close> keeps the first \<open>n\<close> elements and fills up with value-initialised vectors.
\<close>

definition resize :: "nat \<Rightarrow> Vec3 list \<Rightarrow> Vec3 list" where
  "resize n v = take n v @ replicate (n - length v) vec_zero"

definition advance_position :: "Body \<Rightarrow> Body" where
  "advance_position b = b\<lparr>position :=
     vec_add (vec_add (position b) (vec_mul (velocity b) dt))
             (vec_mul (acceleration b) (Fin (1 / 2) * dt * dt))\<rparr>"

definition finish_velocity :: "Vec3 \<Rightarrow> Body \<Rightarrow> Body" where
  "finish_velocity old b = b\<lparr>velocity :=
     vec_add (velocity b) (vec_mul (vec_add old (acceleration b)) (Fin (1 / 2) * dt))\<rparr>"

text \<open>Step 1, the first loop over \<open>i\<close>.\<close>

function step1_loop :: "nat \<Rightarrow> Vec3 list \<Rightarrow> Body list \<Rightarrow> Vec3 list \<times> Body list" where
  "step1_loop i oldAcc bodies =
     (if i < length bodies
      then step1_loop (i + 1) (oldAcc[i := acceleration (bodies ! i)])
             (bodies[i := advance_position (bodies ! i)])
      else (oldAcc, bodies))"
  by pat_completeness auto
termination
  by (relation "measure (\<lambda>(i, oldAcc, bodies). length bodies - i)") auto

declare step1_loop.simps [simp del]

text \<open>Step 3, the second loop over \<open>i\<close>.\<close>

function step3_loop :: "nat \<Rightarrow> Vec3 list \<Rightarrow> Body list \<Rightarrow> Body list" where
  "step3_loop i oldAcc bodies =
     (if i < length bodies
      then step3_loop (i + 1) oldAcc (bodies[i := finish_velocity (oldAcc ! i) (bodies ! i)])
      else bodies)"
  by pat_completeness auto
termination
  by (relation "measure (\<lambda>(i, oldAcc, bodies). length bodies - i)") auto

declare step3_loop.simps [simp del]

definition velocityVerlet :: "Vec3 list \<Rightarrow> Body list \<Rightarrow> Vec3 list \<times> Body list" where
  "velocityVerlet oldAcc bodies =
     (let oldAcc0 = resize (length bodies) oldAcc;
          (oldAcc1, bodies1) = step1_loop 0 oldAcc0 bodies;
          bodies2 = computeAccelerations bodies1;
          bodies3 = step3_loop 0 oldAcc1 bodies2
      in (oldAcc1, bodies3))"

section \<open>enforceBarycenter\<close>

text \<open>
  Lines 144 to 158. The first loop fills the accumulators \<open>totalMomentum\<close> and
  \<open>totalMass\<close>, which start at zero.
\<close>

definition accumulate :: "Vec3 \<times> double \<Rightarrow> Body \<Rightarrow> Vec3 \<times> double" where
  "accumulate acc b =
     (vec_add (fst acc) (scalar_mul (mass b) (velocity b)), snd acc + mass b)"

definition totals :: "Body list \<Rightarrow> Vec3 \<times> double" where
  "totals bodies = foldl accumulate (vec_zero, Fin 0) bodies"

definition totalMomentum :: "Body list \<Rightarrow> Vec3" where
  "totalMomentum bodies = fst (totals bodies)"

definition totalMass :: "Body list \<Rightarrow> double" where
  "totalMass bodies = snd (totals bodies)"

definition correction :: "Body list \<Rightarrow> Vec3" where
  "correction bodies = vec_div (totalMomentum bodies) (totalMass bodies)"

text \<open>
  The function has no \<open>throw\<close> and no check of \<open>totalMass\<close>: it always returns, with the
  velocities it has computed.
\<close>

definition enforceBarycenter :: "Body list \<Rightarrow> Body list" where
  "enforceBarycenter bodies =
     map (\<lambda>b. b\<lparr>velocity := vec_sub (velocity b) (correction bodies)\<rparr>) bodies"

section \<open>The driver: the physics of main\<close>

text \<open>
  The state of a run: the static buffer of \<open>velocityVerlet\<close> and the bodies. \<open>initialise\<close>
  is the two calls before the window loop (lines 210 and 211), \<open>substep_loop\<close> the \<open>for\<close> loop of one frame
  (lines 224 and 225, an \<open>int\<close> counter running to 5), \<open>frames\<close> the window loop until the window is closed
  after \<open>n\<close> frames. Events, trails and drawing do not touch the physics state.
\<close>

type_synonym state = "Vec3 list \<times> Body list"

definition initialise :: "Body list \<Rightarrow> Body list" where
  "initialise bodies = enforceBarycenter (computeAccelerations bodies)"

definition verlet_call :: "state \<Rightarrow> state" where
  "verlet_call s = velocityVerlet (fst s) (snd s)"

function substep_loop :: "int \<Rightarrow> state \<Rightarrow> state" where
  "substep_loop i s = (if i < 5 then substep_loop (i + 1) (verlet_call s) else s)"
  by pat_completeness auto
termination
  by (relation "measure (\<lambda>(i, s). nat (5 - i))") auto

declare substep_loop.simps [simp del]

definition frame :: "state \<Rightarrow> state" where
  "frame s = substep_loop 0 s"

primrec frames :: "nat \<Rightarrow> state \<Rightarrow> state" where
  "frames 0 s = s"
| "frames (Suc n) s = frames n (frame s)"

section \<open>The arithmetic of the program: rounding to binary64\<close>

text \<open>
  The definitions above compute with exact real numbers on the finite values. The
  program computes in binary64: every operation returns the double nearest to the exact
  result, a tie going to the even significand. \<open>round64\<close> is that rounding for results
  in the normal range (53 significant bits; overflow and subnormal results are left
  out), \<open>rne\<close> rounds a real number to the nearest integer with ties to even, and
  \<open>pow2\<close> is a power of two with an integer exponent. The operations with the suffix
  \<open>64\<close> round the result of the exact operation and leave the special values alone.
\<close>

definition pow2 :: "int \<Rightarrow> real" where
  "pow2 e = (if 0 \<le> e then 2 ^ nat e else 1 / 2 ^ nat (- e))"

definition rne :: "real \<Rightarrow> int" where
  "rne q =
     (if q - of_int \<lfloor>q\<rfloor> < 1 / 2 then \<lfloor>q\<rfloor>
      else if 1 / 2 < q - of_int \<lfloor>q\<rfloor> then \<lfloor>q\<rfloor> + 1
      else if even \<lfloor>q\<rfloor> then \<lfloor>q\<rfloor> else \<lfloor>q\<rfloor> + 1)"

definition round64 :: "real \<Rightarrow> real" where
  "round64 r =
     (if r = 0 then 0
      else of_int (rne (r / pow2 (\<lfloor>log 2 \<bar>r\<bar>\<rfloor> - 52))) * pow2 (\<lfloor>log 2 \<bar>r\<bar>\<rfloor> - 52))"

fun rnd :: "double \<Rightarrow> double" where
  "rnd (Fin a) = Fin (round64 a)"
| "rnd PInf = PInf"
| "rnd NInf = NInf"
| "rnd NaN = NaN"

definition add64 :: "double \<Rightarrow> double \<Rightarrow> double" where
  "add64 a b = rnd (a + b)"

definition sub64 :: "double \<Rightarrow> double \<Rightarrow> double" where
  "sub64 a b = rnd (a - b)"

definition mul64 :: "double \<Rightarrow> double \<Rightarrow> double" where
  "mul64 a b = rnd (a * b)"

definition div64 :: "double \<Rightarrow> double \<Rightarrow> double" where
  "div64 a b = rnd (a / b)"

definition sqrt64 :: "double \<Rightarrow> double" where
  "sqrt64 a = rnd (dsqrt a)"

text \<open>
  Modelled from the spec: the macro \<open>M_PI\<close> comes from the C library header
  \<open>corecrt_math_defines.h\<close>, which is not part of the repository. The spec gives \<open>G\<close> as
  \<open>4 * \<pi>\<^sup>2\<close>, so the macro is \<open>\<pi>\<close>: here the double nearest to its decimal text
  \<open>3.14159265358979323846\<close>. The literals \<open>1e-10\<close> and \<open>4\<close> of lines 14 and 16 are rounded
  the same way.
\<close>

definition M_PI64 :: double where
  "M_PI64 = Fin (round64 (314159265358979323846 / 10 ^ 20))"

definition G64 :: double where
  "G64 = mul64 (mul64 (Fin 4) M_PI64) M_PI64"

definition EPS64 :: double where
  "EPS64 = Fin (round64 (1 / 10 ^ 10))"

text \<open>
  The operators of lines 26 to 43 and the body of the inner loop of
  \<open>computeAccelerations\<close> (lines 64 to 78) again, operation by operation and in the order
  of the source, each operation rounded.
\<close>

definition vec_add64 :: "Vec3 \<Rightarrow> Vec3 \<Rightarrow> Vec3" where
  "vec_add64 a b = \<lparr>x = add64 (x a) (x b), y = add64 (y a) (y b), z = add64 (z a) (z b)\<rparr>"

definition vec_sub64 :: "Vec3 \<Rightarrow> Vec3 \<Rightarrow> Vec3" where
  "vec_sub64 a b = \<lparr>x = sub64 (x a) (x b), y = sub64 (y a) (y b), z = sub64 (z a) (z b)\<rparr>"

definition vec_mul64 :: "Vec3 \<Rightarrow> double \<Rightarrow> Vec3" where
  "vec_mul64 a scalar =
     \<lparr>x = mul64 (x a) scalar, y = mul64 (y a) scalar, z = mul64 (z a) scalar\<rparr>"

definition scalar_mul64 :: "double \<Rightarrow> Vec3 \<Rightarrow> Vec3" where
  "scalar_mul64 scalar a =
     \<lparr>x = mul64 (x a) scalar, y = mul64 (y a) scalar, z = mul64 (z a) scalar\<rparr>"

definition norm64 :: "Vec3 \<Rightarrow> double" where
  "norm64 v = sqrt64 (add64 (add64 (mul64 (x v) (x v)) (mul64 (y v) (y v))) (mul64 (z v) (z v)))"

definition pair_force64 :: "Body list \<Rightarrow> nat \<Rightarrow> nat \<Rightarrow> Vec3" where
  "pair_force64 bodies i j =
     (let r = vec_sub64 (position (bodies ! j)) (position (bodies ! i));
          dist = add64 (norm64 r) EPS64;
          invDist3 = div64 (Fin 1) (mul64 (mul64 dist dist) dist)
      in vec_mul64 r (mul64 G64 invDist3))"

definition pair_step64 :: "nat \<Rightarrow> nat \<Rightarrow> Body list \<Rightarrow> Body list" where
  "pair_step64 i j bodies =
     (let force = pair_force64 bodies i j;
          bodies1 = bodies[i := (bodies ! i)\<lparr>acceleration :=
                      vec_add64 (acceleration (bodies ! i))
                        (scalar_mul64 (mass (bodies ! j)) force)\<rparr>];
          bodies2 = bodies1[j := (bodies1 ! j)\<lparr>acceleration :=
                      vec_sub64 (acceleration (bodies1 ! j))
                        (scalar_mul64 (mass (bodies1 ! i)) force)\<rparr>]
      in bodies2)"

section \<open>Vocabulary of the properties\<close>

text \<open>
  The pairs the two nested loops of \<open>computeAccelerations\<close> visit, in the order they
  visit them: every \<open>(i, j)\<close> with \<open>i < j < n\<close>, once.
\<close>

definition pairs_from :: "nat \<Rightarrow> nat \<Rightarrow> (nat \<times> nat) list" where
  "pairs_from i n = concat (map (\<lambda>k. map (Pair k) [k + 1..<n]) [i..<n])"

definition pairs :: "nat \<Rightarrow> (nat \<times> nat) list" where
  "pairs n = pairs_from 0 n"

definition apply_pair :: "Body list \<Rightarrow> nat \<times> nat \<Rightarrow> Body list" where
  "apply_pair bodies p = pair_step (fst p) (snd p) bodies"

definition in_range :: "(nat \<times> nat) list \<Rightarrow> nat \<Rightarrow> bool" where
  "in_range ps n = list_all (\<lambda>p. fst p < snd p \<and> snd p < n) ps"

text \<open>
  Exact arithmetic is the arithmetic of the finite values. A body is finite when its mass
  and the nine components of its vectors are.
\<close>

definition fin_vec :: "Vec3 \<Rightarrow> bool" where
  "fin_vec v \<longleftrightarrow> is_finite (x v) \<and> is_finite (y v) \<and> is_finite (z v)"

definition fin_body :: "Body \<Rightarrow> bool" where
  "fin_body b \<longleftrightarrow>
     is_finite (mass b) \<and> fin_vec (position b) \<and> fin_vec (velocity b) \<and> fin_vec (acceleration b)"

definition fin_bodies :: "Body list \<Rightarrow> bool" where
  "fin_bodies bodies = list_all fin_body bodies"

text \<open>A vector none of whose components is finite: each is a NaN or an infinity.\<close>

definition nonfinite_vec :: "Vec3 \<Rightarrow> bool" where
  "nonfinite_vec v \<longleftrightarrow> \<not> is_finite (x v) \<and> \<not> is_finite (y v) \<and> \<not> is_finite (z v)"

text \<open>
  The sums of the properties, as real numbers, one component \<open>c\<close> of the vectors at a
  time: the total mass, the total momentum and the mass-weighted sum of the
  accelerations.
\<close>

definition mass_sum :: "Body list \<Rightarrow> real" where
  "mass_sum bodies = (\<Sum>b\<leftarrow>bodies. valof (mass b))"

definition momentum_sum :: "(Vec3 \<Rightarrow> double) \<Rightarrow> Body list \<Rightarrow> real" where
  "momentum_sum c bodies = (\<Sum>b\<leftarrow>bodies. valof (mass b) * valof (c (velocity b)))"

definition force_sum :: "(Vec3 \<Rightarrow> double) \<Rightarrow> Body list \<Rightarrow> real" where
  "force_sum c bodies = (\<Sum>b\<leftarrow>bodies. valof (mass b) * valof (c (acceleration b)))"

text \<open>
  The state the integrator keeps between calls: finite values, and mass-weighted
  accelerations that sum to zero.
\<close>

definition balanced :: "Body list \<Rightarrow> bool" where
  "balanced bodies \<longleftrightarrow>
     fin_bodies bodies \<and> force_sum x bodies = 0 \<and> force_sum y bodies = 0 \<and> force_sum z bodies = 0"

text \<open>
  The separation vector of a pair and its regularised length \<open>|r| + EPS\<close>, as a real
  number.
\<close>

definition separation :: "Body list \<Rightarrow> nat \<Rightarrow> nat \<Rightarrow> Vec3" where
  "separation bodies i j = vec_sub (position (bodies ! j)) (position (bodies ! i))"

definition distance :: "Body list \<Rightarrow> nat \<Rightarrow> nat \<Rightarrow> real" where
  "distance bodies i j =
     sqrt ((valof (x (separation bodies i j)))\<^sup>2 + (valof (y (separation bodies i j)))\<^sup>2
           + (valof (z (separation bodies i j)))\<^sup>2) + valof EPS"

text \<open>What the step of the pair \<open>(i, j)\<close> adds to the acceleration of body \<open>k\<close>.\<close>

definition contribution :: "nat \<Rightarrow> nat \<Rightarrow> Body list \<Rightarrow> nat \<Rightarrow> Vec3" where
  "contribution i j bodies k =
     vec_sub (acceleration (pair_step i j bodies ! k)) (acceleration (bodies ! k))"

text \<open>
  What a call of \<open>velocityVerlet\<close> does to the bodies, without the buffer: the three
  steps as maps.
\<close>

definition verlet_step :: "Body list \<Rightarrow> Body list" where
  "verlet_step bodies =
     map2 finish_velocity (map acceleration bodies)
       (computeAccelerations (map advance_position bodies))"

text \<open>The same, in the arithmetic of the program.\<close>

definition contribution64 :: "nat \<Rightarrow> nat \<Rightarrow> Body list \<Rightarrow> nat \<Rightarrow> Vec3" where
  "contribution64 i j bodies k =
     vec_sub64 (acceleration (pair_step64 i j bodies ! k)) (acceleration (bodies ! k))"

text \<open>
  Two Systems that share the process, and with it the static buffer of \<open>velocityVerlet\<close>:
  a schedule says which System the next call steps. Every call receives the buffer the
  previous call left, whichever System that call was for.
\<close>

datatype system = First | Second

fun interleaved ::
  "system list \<Rightarrow> Vec3 list \<times> Body list \<times> Body list \<Rightarrow> Vec3 list \<times> Body list \<times> Body list" where
  "interleaved [] s = s"
| "interleaved (First # schedule) (oldAcc, a, b) =
     interleaved schedule (fst (velocityVerlet oldAcc a), snd (velocityVerlet oldAcc a), b)"
| "interleaved (Second # schedule) (oldAcc, a, b) =
     interleaved schedule (fst (velocityVerlet oldAcc b), a, snd (velocityVerlet oldAcc b))"

text \<open>Example Systems: the Sun and the Earth of \<open>main\<close>, and a body without mass.\<close>

definition sun :: Body where
  "sun = \<lparr>mass = Fin 1, position = vec_zero, velocity = vec_zero, acceleration = vec_zero\<rparr>"

definition earth :: Body where
  "earth = \<lparr>mass = Fin (3 / 10 ^ 6), position = \<lparr>x = Fin 1, y = Fin 0, z = Fin 0\<rparr>,
     velocity = \<lparr>x = Fin 0, y = Fin (2 * pi), z = Fin 0\<rparr>, acceleration = vec_zero\<rparr>"

definition sun_earth :: "Body list" where
  "sun_earth = [sun, earth]"

definition massless :: Body where
  "massless = \<lparr>mass = Fin 0, position = vec_zero,
     velocity = \<lparr>x = Fin 1, y = Fin 2, z = Fin 3\<rparr>, acceleration = vec_zero\<rparr>"

text \<open>
  A pair for the arithmetic of the program: a body of mass \<open>0.1\<close> at the origin and a
  body of mass \<open>0.3\<close> at \<open>(1, 2, 2)\<close>, at a distance of 3, both at rest. The masses are
  the doubles nearest to the decimal literals.
\<close>

definition body_a :: Body where
  "body_a = \<lparr>mass = Fin (round64 (1 / 10)),
     position = \<lparr>x = Fin 0, y = Fin 0, z = Fin 0\<rparr>,
     velocity = \<lparr>x = Fin 0, y = Fin 0, z = Fin 0\<rparr>,
     acceleration = \<lparr>x = Fin 0, y = Fin 0, z = Fin 0\<rparr>\<rparr>"

definition body_b :: Body where
  "body_b = \<lparr>mass = Fin (round64 (3 / 10)),
     position = \<lparr>x = Fin 1, y = Fin 2, z = Fin 2\<rparr>,
     velocity = \<lparr>x = Fin 0, y = Fin 0, z = Fin 0\<rparr>,
     acceleration = \<lparr>x = Fin 0, y = Fin 0, z = Fin 0\<rparr>\<rparr>"

definition pair_ab :: "Body list" where
  "pair_ab = [body_a, body_b]"

section \<open>Loops as folds and maps\<close>

lemma apply_pair_Pair [simp]: "apply_pair bodies (i, j) = pair_step i j bodies"
  by (simp add: apply_pair_def)

lemma length_foldl_apply_pair [simp]: "length (foldl apply_pair bodies ps) = length bodies"
  by (induction ps arbitrary: bodies) (simp_all add: apply_pair_def)

lemma inner_loop_foldl:
  "inner_loop i j bodies = foldl apply_pair bodies (map (Pair i) [j..<length bodies])"
proof (induction i j bodies rule: inner_loop.induct)
  case (1 i j bodies)
  show ?case
  proof (cases "j < length bodies")
    case True
    then show ?thesis
      using "1.IH" by (subst inner_loop.simps) (simp add: upt_conv_Cons)
  next
    case False
    then show ?thesis
      by (subst inner_loop.simps) simp
  qed
qed

lemma pairs_from_step:
  "i < n \<Longrightarrow> pairs_from i n = map (Pair i) [i + 1..<n] @ pairs_from (i + 1) n"
  by (simp add: pairs_from_def upt_conv_Cons)

lemma pairs_from_done: "\<not> i < n \<Longrightarrow> pairs_from i n = []"
  by (simp add: pairs_from_def)

lemma outer_loop_foldl:
  "outer_loop i bodies = foldl apply_pair bodies (pairs_from i (length bodies))"
proof (induction i bodies rule: outer_loop.induct)
  case (1 i bodies)
  show ?case
  proof (cases "i < length bodies")
    case True
    then show ?thesis
      using "1.IH" by (subst outer_loop.simps) (simp add: pairs_from_step inner_loop_foldl)
  next
    case False
    then show ?thesis
      by (subst outer_loop.simps) (simp add: pairs_from_done)
  qed
qed

lemma computeAccelerations_foldl:
  "computeAccelerations bodies =
     foldl apply_pair (map reset_acceleration bodies) (pairs (length bodies))"
  by (simp add: computeAccelerations_def outer_loop_foldl pairs_def)

lemma set_pairs: "set (pairs n) = {(i, j). i < j \<and> j < n}"
  by (fastforce simp: pairs_def pairs_from_def)

text \<open>
  After \<open>resize\<close> the buffer has one entry for each body, so the two loops of
  \<open>velocityVerlet\<close> write and read it within its bounds; they are two maps.
\<close>

lemma step1_loop_maps:
  "length oldAcc = length bodies \<Longrightarrow> i \<le> length bodies \<Longrightarrow>
   step1_loop i oldAcc bodies =
     (take i oldAcc @ map acceleration (drop i bodies),
      take i bodies @ map advance_position (drop i bodies))"
proof (induction i oldAcc bodies rule: step1_loop.induct)
  case (1 i oldAcc bodies)
  show ?case
  proof (cases "i < length bodies")
    case True
    have "step1_loop i oldAcc bodies =
        step1_loop (i + 1) (oldAcc[i := acceleration (bodies ! i)])
          (bodies[i := advance_position (bodies ! i)])"
      using True by (subst step1_loop.simps) simp
    also have "\<dots> =
        (take (i + 1) (oldAcc[i := acceleration (bodies ! i)]) @
           map acceleration (drop (i + 1) (bodies[i := advance_position (bodies ! i)])),
         take (i + 1) (bodies[i := advance_position (bodies ! i)]) @
           map advance_position (drop (i + 1) (bodies[i := advance_position (bodies ! i)])))"
      using True "1.prems" by (intro "1.IH") simp_all
    also have "\<dots> =
        (take i oldAcc @ map acceleration (drop i bodies),
         take i bodies @ map advance_position (drop i bodies))"
      using True "1.prems"
      by (simp add: take_Suc_conv_app_nth Cons_nth_drop_Suc [symmetric])
    finally show ?thesis .
  next
    case False
    then show ?thesis
      using "1.prems" by (subst step1_loop.simps) simp
  qed
qed

lemma step3_loop_maps:
  "length oldAcc = length bodies \<Longrightarrow> i \<le> length bodies \<Longrightarrow>
   step3_loop i oldAcc bodies =
     take i bodies @ map2 finish_velocity (drop i oldAcc) (drop i bodies)"
proof (induction i oldAcc bodies rule: step3_loop.induct)
  case (1 i oldAcc bodies)
  show ?case
  proof (cases "i < length bodies")
    case True
    have "step3_loop i oldAcc bodies =
        step3_loop (i + 1) oldAcc (bodies[i := finish_velocity (oldAcc ! i) (bodies ! i)])"
      using True by (subst step3_loop.simps) simp
    also have "\<dots> =
        take (i + 1) (bodies[i := finish_velocity (oldAcc ! i) (bodies ! i)]) @
          map2 finish_velocity (drop (i + 1) oldAcc)
            (drop (i + 1) (bodies[i := finish_velocity (oldAcc ! i) (bodies ! i)]))"
      using True "1.prems" by (intro "1.IH") simp_all
    also have "\<dots> = take i bodies @ map2 finish_velocity (drop i oldAcc) (drop i bodies)"
      using True "1.prems"
      by (simp add: take_Suc_conv_app_nth Cons_nth_drop_Suc [symmetric])
    finally show ?thesis .
  next
    case False
    then show ?thesis
      using "1.prems" by (subst step3_loop.simps) simp
  qed
qed

lemma length_resize [simp]: "length (resize n v) = n"
  by (simp add: resize_def)

lemma velocityVerlet_maps:
  "velocityVerlet oldAcc bodies =
     (map acceleration bodies,
      map2 finish_velocity (map acceleration bodies)
        (computeAccelerations (map advance_position bodies)))"
  by (simp add: velocityVerlet_def Let_def step1_loop_maps step3_loop_maps)

section \<open>The special values\<close>

text \<open>Division by zero and the other operations that IEEE 754 calls invalid, in the model.\<close>

lemma special_values:
  "Fin 1 / Fin 0 = PInf" "Fin (- 1) / Fin 0 = NInf" "Fin 0 / Fin 0 = NaN"
  "Fin 1 / PInf = Fin 0" "PInf / PInf = NaN" "NInf / Fin 2 = NInf" "PInf / Fin (- 2) = NInf"
  "Fin 0 * PInf = NaN" "PInf * Fin (- 2) = NInf" "NInf * NInf = PInf"
  "PInf - PInf = NaN" "PInf + NInf = NaN" "PInf + Fin 1 = PInf" "Fin 1 - PInf = NInf"
  "NaN + Fin 1 = NaN" "Fin 1 * NaN = NaN" "dsqrt (Fin (- 1)) = NaN" "dsqrt (Fin 4) = Fin 2"
  by (simp_all add: divide_double_def times_double_def minus_double_def signed_inf_def)

section \<open>Arithmetic on finite values\<close>

text \<open>
  On finite values the operations of \<open>double\<close> are those of the real numbers, provided
  no divisor is zero and no square root is taken below zero.
\<close>

lemma is_finite_iff: "is_finite a \<longleftrightarrow> (\<exists>r. a = Fin r)"
  by (cases a) simp_all

lemma Fin_valof [simp]: "is_finite a \<Longrightarrow> Fin (valof a) = a"
  by (cases a) simp_all

lemma Fin_minus [simp]: "Fin a - Fin b = Fin (a - b)"
  by (simp add: minus_double_def)

lemma Fin_times [simp]: "Fin a * Fin b = Fin (a * b)"
  by (simp add: times_double_def)

lemma Fin_divide [simp]: "b \<noteq> 0 \<Longrightarrow> Fin a / Fin b = Fin (a / b)"
  by (simp add: divide_double_def)

lemma is_finite_plus [simp]: "is_finite a \<Longrightarrow> is_finite b \<Longrightarrow> is_finite (a + b)"
  by (auto simp: is_finite_iff)

lemma valof_plus [simp]: "is_finite a \<Longrightarrow> is_finite b \<Longrightarrow> valof (a + b) = valof a + valof b"
  by (auto simp: is_finite_iff)

lemma is_finite_minus [simp]: "is_finite a \<Longrightarrow> is_finite b \<Longrightarrow> is_finite (a - b)"
  by (auto simp: is_finite_iff)

lemma valof_minus [simp]: "is_finite a \<Longrightarrow> is_finite b \<Longrightarrow> valof (a - b) = valof a - valof b"
  by (auto simp: is_finite_iff)

lemma is_finite_uminus [simp]: "is_finite a \<Longrightarrow> is_finite (- a)"
  by (auto simp: is_finite_iff)

lemma valof_uminus [simp]: "is_finite a \<Longrightarrow> valof (- a) = - valof a"
  by (auto simp: is_finite_iff)

lemma is_finite_times [simp]: "is_finite a \<Longrightarrow> is_finite b \<Longrightarrow> is_finite (a * b)"
  by (auto simp: is_finite_iff)

lemma valof_times [simp]: "is_finite a \<Longrightarrow> is_finite b \<Longrightarrow> valof (a * b) = valof a * valof b"
  by (auto simp: is_finite_iff)

lemma is_finite_divide [simp]:
  "is_finite a \<Longrightarrow> is_finite b \<Longrightarrow> valof b \<noteq> 0 \<Longrightarrow> is_finite (a / b)"
  by (auto simp: is_finite_iff)

lemma valof_divide [simp]:
  "is_finite a \<Longrightarrow> is_finite b \<Longrightarrow> valof b \<noteq> 0 \<Longrightarrow> valof (a / b) = valof a / valof b"
  by (auto simp: is_finite_iff)

lemma is_finite_dsqrt [simp]: "is_finite a \<Longrightarrow> 0 \<le> valof a \<Longrightarrow> is_finite (dsqrt a)"
  by (auto simp: is_finite_iff)

lemma valof_dsqrt [simp]: "is_finite a \<Longrightarrow> 0 \<le> valof a \<Longrightarrow> valof (dsqrt a) = sqrt (valof a)"
  by (auto simp: is_finite_iff)

lemma is_finite_consts [simp]:
  "is_finite G" "is_finite dt" "is_finite EPS" "is_finite (0::double)" "is_finite (1::double)"
  by (simp_all add: G_def dt_def EPS_def zero_double_def one_double_def)

lemma valof_zero [simp]: "valof (0::double) = 0"
  by (simp add: zero_double_def)

section \<open>Components of vectors\<close>

text \<open>
  The operators on \<open>Vec3\<close> work component by component: \<open>c\<close> stands for any of the
  three selectors.
\<close>

lemma component_add: "c \<in> {x, y, z} \<Longrightarrow> c (vec_add u v) = c u + c v"
  by (auto simp: vec_add_def)

lemma component_sub: "c \<in> {x, y, z} \<Longrightarrow> c (vec_sub u v) = c u - c v"
  by (auto simp: vec_sub_def)

lemma component_mul: "c \<in> {x, y, z} \<Longrightarrow> c (vec_mul u s) = c u * s"
  by (auto simp: vec_mul_def)

lemma component_scalar_mul: "c \<in> {x, y, z} \<Longrightarrow> c (scalar_mul s u) = c u * s"
  by (auto simp: scalar_mul_def)

lemma component_div: "c \<in> {x, y, z} \<Longrightarrow> c (vec_div u s) = c u / s"
  by (auto simp: vec_div_def)

lemma component_zero: "c \<in> {x, y, z} \<Longrightarrow> c vec_zero = 0"
  by (auto simp: vec_zero_def)

lemmas component_simps =
  component_add component_sub component_mul component_scalar_mul component_div component_zero

lemma fin_vec_component: "fin_vec v \<Longrightarrow> c \<in> {x, y, z} \<Longrightarrow> is_finite (c v)"
  by (auto simp: fin_vec_def)

lemma vec_eqI:
  fixes u v :: Vec3
  shows "(\<And>c. c \<in> {x, y, z} \<Longrightarrow> c u = c v) \<Longrightarrow> u = v"
  by simp

section \<open>Finite vectors and bodies\<close>

lemma fin_bodies_nth: "fin_bodies bodies \<Longrightarrow> i < length bodies \<Longrightarrow> fin_body (bodies ! i)"
  by (simp add: fin_bodies_def list_all_length)

lemma fin_bodies_update:
  "fin_bodies bodies \<Longrightarrow> fin_body b \<Longrightarrow> fin_bodies (bodies[i := b])"
  using set_update_subset_insert [of bodies i b] by (auto simp: fin_bodies_def list_all_iff)

lemma fin_vec_add [simp]: "fin_vec u \<Longrightarrow> fin_vec v \<Longrightarrow> fin_vec (vec_add u v)"
  by (simp add: fin_vec_def vec_add_def)

lemma fin_vec_sub [simp]: "fin_vec u \<Longrightarrow> fin_vec v \<Longrightarrow> fin_vec (vec_sub u v)"
  by (simp add: fin_vec_def vec_sub_def)

lemma fin_vec_mul [simp]: "fin_vec u \<Longrightarrow> is_finite s \<Longrightarrow> fin_vec (vec_mul u s)"
  by (simp add: fin_vec_def vec_mul_def)

lemma fin_vec_scalar_mul [simp]: "is_finite s \<Longrightarrow> fin_vec u \<Longrightarrow> fin_vec (scalar_mul s u)"
  by (simp add: fin_vec_def scalar_mul_def)

lemma fin_vec_div [simp]:
  "fin_vec u \<Longrightarrow> is_finite s \<Longrightarrow> valof s \<noteq> 0 \<Longrightarrow> fin_vec (vec_div u s)"
  by (simp add: fin_vec_def vec_div_def)

lemma fin_vec_zero [simp]: "fin_vec vec_zero"
  by (simp add: fin_vec_def vec_zero_def)

section \<open>The force of a pair\<close>

text \<open>
  The divisor \<open>dist * dist * dist\<close> is at least \<open>EPS\<^sup>3\<close>: on finite positions the division of
  \<open>computeAccelerations\<close> never meets a zero.
\<close>

lemma norm3_finite:
  assumes "fin_vec r"
  shows "is_finite (norm3 r)" and "valof (norm3 r) = sqrt ((valof (x r))\<^sup>2 + (valof (y r))\<^sup>2 + (valof (z r))\<^sup>2)"
proof -
  have f: "is_finite (x r)" "is_finite (y r)" "is_finite (z r)"
    using assms by (simp_all add: fin_vec_def)
  have nn: "0 \<le> valof (x r) * valof (x r) + valof (y r) * valof (y r) + valof (z r) * valof (z r)"
    by simp
  show "is_finite (norm3 r)"
    unfolding norm3_def using f nn by simp
  show "valof (norm3 r) = sqrt ((valof (x r))\<^sup>2 + (valof (y r))\<^sup>2 + (valof (z r))\<^sup>2)"
    unfolding norm3_def using f nn by (simp add: power2_eq_square)
qed

lemma distance_pos: "0 < distance bodies i j"
proof -
  have "0 < valof EPS"
    by (simp add: EPS_def)
  moreover have "0 \<le> sqrt ((valof (x (separation bodies i j)))\<^sup>2
      + (valof (y (separation bodies i j)))\<^sup>2 + (valof (z (separation bodies i j)))\<^sup>2)"
    by simp
  ultimately show ?thesis
    unfolding distance_def by linarith
qed

lemma fin_separation:
  "fin_bodies bodies \<Longrightarrow> i < length bodies \<Longrightarrow> j < length bodies \<Longrightarrow>
   fin_vec (separation bodies i j)"
  using fin_bodies_nth [of bodies i] fin_bodies_nth [of bodies j]
  by (simp add: separation_def fin_body_def)

lemma pair_force_finite:
  assumes "fin_bodies bodies" "i < length bodies" "j < length bodies"
  shows "fin_vec (pair_force bodies i j)"
    and "c \<in> {x, y, z} \<Longrightarrow> valof (c (pair_force bodies i j)) =
           valof (c (separation bodies i j)) * (valof G * (1 / (distance bodies i j) ^ 3))"
proof -
  let ?r = "separation bodies i j"
  let ?dist = "norm3 ?r + EPS"
  have r: "fin_vec ?r"
    using assms by (rule fin_separation)
  have d: "is_finite ?dist" "valof ?dist = distance bodies i j"
    using norm3_finite [OF r] by (simp_all add: distance_def)
  have d3: "is_finite (?dist * ?dist * ?dist)" "valof (?dist * ?dist * ?dist) = (distance bodies i j) ^ 3"
    using d by (simp_all add: power3_eq_cube)
  have nz: "valof (?dist * ?dist * ?dist) \<noteq> 0"
    using distance_pos [of bodies i j] d3 by simp
  have inv: "is_finite (Fin 1 / (?dist * ?dist * ?dist))"
    "valof (Fin 1 / (?dist * ?dist * ?dist)) = 1 / (distance bodies i j) ^ 3"
    using d3 nz by simp_all
  have k: "is_finite (G * (Fin 1 / (?dist * ?dist * ?dist)))"
    "valof (G * (Fin 1 / (?dist * ?dist * ?dist))) = valof G * (1 / (distance bodies i j) ^ 3)"
    using inv by simp_all
  have pf: "pair_force bodies i j = vec_mul ?r (G * (Fin 1 / (?dist * ?dist * ?dist)))"
    by (simp add: pair_force_def Let_def separation_def)
  show "fin_vec (pair_force bodies i j)"
    unfolding pf using r k by simp
  show "valof (c (pair_force bodies i j)) =
      valof (c ?r) * (valof G * (1 / (distance bodies i j) ^ 3))" if "c \<in> {x, y, z}"
    unfolding pf using that r k fin_vec_component [OF r that]
    by (simp add: component_mul)
qed

section \<open>The step of a pair keeps the sums\<close>

lemma pair_step_updates:
  assumes "i < j" "j < length bodies"
  shows "pair_step i j bodies = bodies
     [i := (bodies ! i)\<lparr>acceleration :=
        vec_add (acceleration (bodies ! i)) (scalar_mul (mass (bodies ! j)) (pair_force bodies i j))\<rparr>,
      j := (bodies ! j)\<lparr>acceleration :=
        vec_sub (acceleration (bodies ! j)) (scalar_mul (mass (bodies ! i)) (pair_force bodies i j))\<rparr>]"
  using assms by (simp add: pair_step_def Let_def)

lemma sum_list_map_update:
  fixes f :: "'a \<Rightarrow> real"
  shows "i < length xs \<Longrightarrow> (\<Sum>b\<leftarrow>xs[i := v]. f b) = (\<Sum>b\<leftarrow>xs. f b) - f (xs ! i) + f v"
proof (induction xs arbitrary: i)
  case Nil
  then show ?case by simp
next
  case (Cons a xs)
  then show ?case by (cases i) simp_all
qed

lemma pair_step_fields:
  assumes "i < j" "j < length bodies"
  shows "map mass (pair_step i j bodies) = map mass bodies"
    and "map position (pair_step i j bodies) = map position bodies"
    and "map velocity (pair_step i j bodies) = map velocity bodies"
  using assms by (simp_all add: pair_step_updates list_eq_iff_nth_eq nth_list_update)

lemma pair_step_finite:
  assumes "fin_bodies bodies" "i < j" "j < length bodies"
  shows "fin_bodies (pair_step i j bodies)"
proof -
  have f: "fin_vec (pair_force bodies i j)"
    using assms by (intro pair_force_finite) simp_all
  have bi: "fin_body (bodies ! i)" and bj: "fin_body (bodies ! j)"
    using assms by (simp_all add: fin_bodies_nth)
  show ?thesis
    unfolding pair_step_updates [OF assms(2,3)]
    using assms(1) f bi bj
    by (intro fin_bodies_update) (simp_all add: fin_body_def)
qed

lemma pair_step_force_sum:
  assumes "fin_bodies bodies" "i < j" "j < length bodies" "c \<in> {x, y, z}"
  shows "force_sum c (pair_step i j bodies) = force_sum c bodies"
proof -
  let ?f = "pair_force bodies i j"
  have f: "is_finite (c ?f)"
    using assms by (intro fin_vec_component pair_force_finite) simp_all
  have bi: "fin_body (bodies ! i)" and bj: "fin_body (bodies ! j)"
    using assms by (simp_all add: fin_bodies_nth)
  have ai: "is_finite (c (acceleration (bodies ! i)))" and aj: "is_finite (c (acceleration (bodies ! j)))"
    using bi bj assms(4) by (simp_all add: fin_body_def fin_vec_component)
  have mi: "is_finite (mass (bodies ! i))" and mj: "is_finite (mass (bodies ! j))"
    using bi bj by (simp_all add: fin_body_def)
  show ?thesis
    unfolding force_sum_def pair_step_updates [OF assms(2,3)]
    using assms(2,3,4) f ai aj mi mj
    by (simp add: sum_list_map_update component_simps algebra_simps)
qed

section \<open>All pairs: computeAccelerations\<close>

lemma in_range_pairs: "in_range (pairs n) n"
  by (auto simp: in_range_def list_all_iff set_pairs)

lemma foldl_apply_pair_fields:
  "in_range ps (length bodies) \<Longrightarrow>
   map mass (foldl apply_pair bodies ps) = map mass bodies \<and>
   map position (foldl apply_pair bodies ps) = map position bodies \<and>
   map velocity (foldl apply_pair bodies ps) = map velocity bodies"
proof (induction ps arbitrary: bodies)
  case Nil
  show ?case by simp
next
  case (Cons p ps)
  obtain i j where p: "p = (i, j)"
    by (cases p)
  from Cons.prems have ij: "i < j" "j < length bodies"
    and rest: "in_range ps (length (pair_step i j bodies))"
    by (simp_all add: p in_range_def)
  show ?case
    using Cons.IH [OF rest] ij by (simp add: p pair_step_fields)
qed

lemma foldl_apply_pair_finite:
  "in_range ps (length bodies) \<Longrightarrow> fin_bodies bodies \<Longrightarrow>
   fin_bodies (foldl apply_pair bodies ps)"
proof (induction ps arbitrary: bodies)
  case Nil
  then show ?case by simp
next
  case (Cons p ps)
  obtain i j where p: "p = (i, j)"
    by (cases p)
  from Cons.prems have ij: "i < j" "j < length bodies"
    and rest: "in_range ps (length (pair_step i j bodies))"
    by (simp_all add: p in_range_def)
  have "fin_bodies (pair_step i j bodies)"
    using Cons.prems(2) ij by (rule pair_step_finite)
  from Cons.IH [OF rest this] show ?case
    by (simp add: p)
qed

lemma foldl_apply_pair_force_sum:
  "in_range ps (length bodies) \<Longrightarrow> fin_bodies bodies \<Longrightarrow> c \<in> {x, y, z} \<Longrightarrow>
   force_sum c (foldl apply_pair bodies ps) = force_sum c bodies"
proof (induction ps arbitrary: bodies)
  case Nil
  then show ?case by simp
next
  case (Cons p ps)
  obtain i j where p: "p = (i, j)"
    by (cases p)
  from Cons.prems have ij: "i < j" "j < length bodies"
    and rest: "in_range ps (length (pair_step i j bodies))"
    by (simp_all add: p in_range_def)
  have fin: "fin_bodies (pair_step i j bodies)"
    using Cons.prems(2) ij by (rule pair_step_finite)
  have "force_sum c (pair_step i j bodies) = force_sum c bodies"
    using Cons.prems(2) ij Cons.prems(3) by (rule pair_step_force_sum)
  with Cons.IH [OF rest fin Cons.prems(3)] show ?case
    by (simp add: p)
qed

lemma reset_fields [simp]:
  "mass (reset_acceleration b) = mass b"
  "position (reset_acceleration b) = position b"
  "velocity (reset_acceleration b) = velocity b"
  "acceleration (reset_acceleration b) = vec_zero"
  by (simp_all add: reset_acceleration_def)

lemma force_sum_reset: "c \<in> {x, y, z} \<Longrightarrow> force_sum c (map reset_acceleration bodies) = 0"
  by (induction bodies) (simp_all add: force_sum_def component_zero)

lemma computeAccelerations_fields:
  "map mass (computeAccelerations bodies) = map mass bodies"
  "map position (computeAccelerations bodies) = map position bodies"
  "map velocity (computeAccelerations bodies) = map velocity bodies"
  using foldl_apply_pair_fields [of "pairs (length bodies)" "map reset_acceleration bodies"]
  by (simp_all add: computeAccelerations_foldl in_range_pairs comp_def)

lemma computeAccelerations_finite:
  "fin_bodies (map reset_acceleration bodies) \<Longrightarrow> fin_bodies (computeAccelerations bodies)"
  by (simp add: computeAccelerations_foldl foldl_apply_pair_finite in_range_pairs)

lemma computeAccelerations_force_sum:
  "fin_bodies (map reset_acceleration bodies) \<Longrightarrow> c \<in> {x, y, z} \<Longrightarrow>
   force_sum c (computeAccelerations bodies) = 0"
  by (simp add: computeAccelerations_foldl foldl_apply_pair_force_sum in_range_pairs force_sum_reset)

lemma fin_bodies_reset: "fin_bodies bodies \<Longrightarrow> fin_bodies (map reset_acceleration bodies)"
  by (simp add: fin_bodies_def list_all_iff fin_body_def)

section \<open>The pairs, and one pair in exact arithmetic\<close>




lemma pair_step_nth:
  assumes "i < j" "j < length bodies"
  shows "pair_step i j bodies ! i = (bodies ! i)\<lparr>acceleration :=
        vec_add (acceleration (bodies ! i)) (scalar_mul (mass (bodies ! j)) (pair_force bodies i j))\<rparr>"
    and "pair_step i j bodies ! j = (bodies ! j)\<lparr>acceleration :=
        vec_sub (acceleration (bodies ! j)) (scalar_mul (mass (bodies ! i)) (pair_force bodies i j))\<rparr>"
    and "k \<noteq> i \<Longrightarrow> k \<noteq> j \<Longrightarrow> pair_step i j bodies ! k = bodies ! k"
  using assms by (simp_all add: pair_step_updates)

lemma pair_step_exact:
  assumes "fin_bodies bodies" "i < j" "j < length bodies" "c \<in> {x, y, z}"
  shows "c (acceleration (pair_step i j bodies ! i)) =
      Fin (valof (c (acceleration (bodies ! i)))
           + valof (mass (bodies ! j)) * valof (c (pair_force bodies i j)))"
    and "c (acceleration (pair_step i j bodies ! j)) =
      Fin (valof (c (acceleration (bodies ! j)))
           - valof (mass (bodies ! i)) * valof (c (pair_force bodies i j)))"
proof -
  let ?f = "pair_force bodies i j"
  have f: "is_finite (c ?f)"
    using assms by (intro fin_vec_component pair_force_finite) simp_all
  have bi: "fin_body (bodies ! i)" and bj: "fin_body (bodies ! j)"
    using assms by (simp_all add: fin_bodies_nth)
  have ai: "is_finite (c (acceleration (bodies ! i)))" and aj: "is_finite (c (acceleration (bodies ! j)))"
    using bi bj assms(4) by (simp_all add: fin_body_def fin_vec_component)
  have mi: "is_finite (mass (bodies ! i))" and mj: "is_finite (mass (bodies ! j))"
    using bi bj by (simp_all add: fin_body_def)
  have "is_finite (c (acceleration (pair_step i j bodies ! i)))"
    and "valof (c (acceleration (pair_step i j bodies ! i))) =
      valof (c (acceleration (bodies ! i))) + valof (mass (bodies ! j)) * valof (c ?f)"
    using assms(4) f ai mj by (simp_all add: pair_step_nth [OF assms(2,3)] component_simps)
  then show "c (acceleration (pair_step i j bodies ! i)) =
      Fin (valof (c (acceleration (bodies ! i))) + valof (mass (bodies ! j)) * valof (c ?f))"
    by (metis Fin_valof)
  have "is_finite (c (acceleration (pair_step i j bodies ! j)))"
    and "valof (c (acceleration (pair_step i j bodies ! j))) =
      valof (c (acceleration (bodies ! j))) - valof (mass (bodies ! i)) * valof (c ?f)"
    using assms(4) f aj mi by (simp_all add: pair_step_nth [OF assms(2,3)] component_simps)
  then show "c (acceleration (pair_step i j bodies ! j)) =
      Fin (valof (c (acceleration (bodies ! j))) - valof (mass (bodies ! i)) * valof (c ?f))"
    by (metis Fin_valof)
qed

lemma contribution_exact:
  assumes "fin_bodies bodies" "i < j" "j < length bodies" "c \<in> {x, y, z}"
  shows "c (contribution i j bodies i) =
      Fin (valof (mass (bodies ! j)) * valof (c (pair_force bodies i j)))"
    and "c (contribution i j bodies j) =
      Fin (- (valof (mass (bodies ! i)) * valof (c (pair_force bodies i j))))"
proof -
  have bi: "fin_body (bodies ! i)" and bj: "fin_body (bodies ! j)"
    using assms by (simp_all add: fin_bodies_nth)
  have ai: "is_finite (c (acceleration (bodies ! i)))" and aj: "is_finite (c (acceleration (bodies ! j)))"
    using bi bj assms(4) by (simp_all add: fin_body_def fin_vec_component)
  obtain ri where ri: "c (acceleration (bodies ! i)) = Fin ri"
    using ai by (auto simp: is_finite_iff)
  obtain rj where rj: "c (acceleration (bodies ! j)) = Fin rj"
    using aj by (auto simp: is_finite_iff)
  show "c (contribution i j bodies i) =
      Fin (valof (mass (bodies ! j)) * valof (c (pair_force bodies i j)))"
    using assms(4) by (simp add: contribution_def component_sub pair_step_exact(1) [OF assms] ri)
  show "c (contribution i j bodies j) =
      Fin (- (valof (mass (bodies ! i)) * valof (c (pair_force bodies i j))))"
    using assms(4) by (simp add: contribution_def component_sub pair_step_exact(2) [OF assms] rj)
qed


section \<open>The two loops of velocityVerlet in exact arithmetic\<close>

lemma map_eq_nth: "map f xs = map g ys \<Longrightarrow> i < length ys \<Longrightarrow> f (xs ! i) = g (ys ! i)"
  by (metis length_map nth_map)

lemma computeAccelerations_nth:
  assumes "i < length bodies"
  shows "mass (computeAccelerations bodies ! i) = mass (bodies ! i)"
    and "position (computeAccelerations bodies ! i) = position (bodies ! i)"
    and "velocity (computeAccelerations bodies ! i) = velocity (bodies ! i)"
  using assms map_eq_nth [OF computeAccelerations_fields(1), of i bodies]
    map_eq_nth [OF computeAccelerations_fields(2), of i bodies]
    map_eq_nth [OF computeAccelerations_fields(3), of i bodies]
  by simp_all

lemma advance_position_fields [simp]:
  "mass (advance_position b) = mass b"
  "velocity (advance_position b) = velocity b"
  "acceleration (advance_position b) = acceleration b"
  by (simp_all add: advance_position_def)

lemma finish_velocity_fields [simp]:
  "mass (finish_velocity old b) = mass b"
  "position (finish_velocity old b) = position b"
  "acceleration (finish_velocity old b) = acceleration b"
  by (simp_all add: finish_velocity_def)

lemma advance_position_exact:
  assumes "fin_body b" "c \<in> {x, y, z}"
  shows "c (position (advance_position b)) =
     Fin (valof (c (position b)) + valof (c (velocity b)) * valof dt
          + 1 / 2 * valof (c (acceleration b)) * (valof dt)\<^sup>2)"
proof -
  have f: "is_finite (c (position b))" "is_finite (c (velocity b))" "is_finite (c (acceleration b))"
    using assms by (simp_all add: fin_body_def fin_vec_component)
  have "is_finite (c (position (advance_position b)))"
    using f assms(2) by (simp add: advance_position_def component_simps)
  moreover have "valof (c (position (advance_position b))) =
      valof (c (position b)) + valof (c (velocity b)) * valof dt
        + 1 / 2 * valof (c (acceleration b)) * (valof dt)\<^sup>2"
    using f assms(2) by (simp add: advance_position_def component_simps power2_eq_square)
  ultimately show ?thesis
    by (metis Fin_valof)
qed

lemma advance_position_finite: "fin_body b \<Longrightarrow> fin_body (advance_position b)"
  by (simp add: fin_body_def advance_position_def)

lemma finish_velocity_exact:
  assumes "fin_vec old" "fin_body b" "c \<in> {x, y, z}"
  shows "c (velocity (finish_velocity old b)) =
     Fin (valof (c (velocity b)) + 1 / 2 * (valof (c old) + valof (c (acceleration b))) * valof dt)"
proof -
  have f: "is_finite (c old)" "is_finite (c (velocity b))" "is_finite (c (acceleration b))"
    using assms by (simp_all add: fin_body_def fin_vec_component)
  have "is_finite (c (velocity (finish_velocity old b)))"
    using f assms(3) by (simp add: finish_velocity_def component_simps)
  moreover have "valof (c (velocity (finish_velocity old b))) =
      valof (c (velocity b)) + 1 / 2 * (valof (c old) + valof (c (acceleration b))) * valof dt"
    using f assms(3) by (simp add: finish_velocity_def component_simps)
  ultimately show ?thesis
    by (metis Fin_valof)
qed

lemma finish_velocity_finite: "fin_vec old \<Longrightarrow> fin_body b \<Longrightarrow> fin_body (finish_velocity old b)"
  by (simp add: fin_body_def finish_velocity_def)

lemma fin_bodies_map:
  "fin_bodies bodies \<Longrightarrow> (\<And>b. fin_body b \<Longrightarrow> fin_body (f b)) \<Longrightarrow> fin_bodies (map f bodies)"
  by (simp add: fin_bodies_def list_all_iff)

lemma fin_bodies_advance:
  "fin_bodies bodies \<Longrightarrow> fin_bodies (computeAccelerations (map advance_position bodies))"
  by (intro computeAccelerations_finite fin_bodies_reset fin_bodies_map advance_position_finite)

section \<open>enforceBarycenter in exact arithmetic\<close>

lemma foldl_accumulate:
  "fin_bodies bodies \<Longrightarrow> fin_vec p \<Longrightarrow> is_finite m \<Longrightarrow> c \<in> {x, y, z} \<Longrightarrow>
   fin_vec (fst (foldl accumulate (p, m) bodies))
   \<and> is_finite (snd (foldl accumulate (p, m) bodies))
   \<and> valof (snd (foldl accumulate (p, m) bodies)) = valof m + mass_sum bodies
   \<and> valof (c (fst (foldl accumulate (p, m) bodies))) = valof (c p) + momentum_sum c bodies"
proof (induction bodies arbitrary: p m)
  case Nil
  then show ?case
    by (simp add: mass_sum_def momentum_sum_def)
next
  case (Cons b bodies)
  from Cons.prems have b: "is_finite (mass b)" "fin_vec (velocity b)" and rest: "fin_bodies bodies"
    by (simp_all add: fin_bodies_def fin_body_def)
  have p': "fin_vec (vec_add p (scalar_mul (mass b) (velocity b)))"
    using b Cons.prems(2) by simp
  have m': "is_finite (m + mass b)"
    using b Cons.prems(3) by simp
  have cp: "valof (c (vec_add p (scalar_mul (mass b) (velocity b)))) =
      valof (c p) + valof (mass b) * valof (c (velocity b))"
    using b Cons.prems(2,4) fin_vec_component [of p c] fin_vec_component [of "velocity b" c]
    by (simp add: component_simps)
  have mm: "valof (m + mass b) = valof m + valof (mass b)"
    using b Cons.prems(3) by simp
  show ?case
    using Cons.IH [OF rest p' m' Cons.prems(4)]
    by (simp add: accumulate_def cp mm mass_sum_def momentum_sum_def)
qed

lemma totalMass_exact: "fin_bodies bodies \<Longrightarrow> totalMass bodies = Fin (mass_sum bodies)"
  using foldl_accumulate [of bodies vec_zero "Fin 0" x]
  by (simp add: totalMass_def totals_def is_finite_iff) auto

lemma totalMomentum_finite: "fin_bodies bodies \<Longrightarrow> fin_vec (totalMomentum bodies)"
  using foldl_accumulate [of bodies vec_zero "Fin 0" x]
  by (simp add: totalMomentum_def totals_def)

lemma totalMomentum_exact:
  assumes "fin_bodies bodies" "c \<in> {x, y, z}"
  shows "c (totalMomentum bodies) = Fin (momentum_sum c bodies)"
proof -
  have "valof (c (totalMomentum bodies)) = momentum_sum c bodies"
    using foldl_accumulate [of bodies vec_zero "Fin 0" c] assms
    by (simp add: totalMomentum_def totals_def component_zero)
  moreover have "is_finite (c (totalMomentum bodies))"
    using assms by (simp add: totalMomentum_finite fin_vec_component)
  ultimately show ?thesis
    by (metis Fin_valof)
qed

lemma shift_velocity_sums:
  "fin_bodies bodies \<Longrightarrow> fin_vec k \<Longrightarrow> c \<in> {x, y, z} \<Longrightarrow>
   fin_bodies (map (\<lambda>b. b\<lparr>velocity := vec_sub (velocity b) k\<rparr>) bodies)
   \<and> mass_sum (map (\<lambda>b. b\<lparr>velocity := vec_sub (velocity b) k\<rparr>) bodies) = mass_sum bodies
   \<and> momentum_sum c (map (\<lambda>b. b\<lparr>velocity := vec_sub (velocity b) k\<rparr>) bodies) =
       momentum_sum c bodies - valof (c k) * mass_sum bodies"
proof (induction bodies)
  case Nil
  show ?case
    by (simp add: fin_bodies_def mass_sum_def momentum_sum_def)
next
  case (Cons b bodies)
  from Cons.prems have b: "fin_body b" and rest: "fin_bodies bodies"
    by (simp_all add: fin_bodies_def)
  have v: "is_finite (c (velocity b))" "is_finite (c k)"
    using b Cons.prems(2,3) by (simp_all add: fin_body_def fin_vec_component)
  have fb: "fin_body (b\<lparr>velocity := vec_sub (velocity b) k\<rparr>)"
    using b Cons.prems(2) by (simp add: fin_body_def)
  have cv: "valof (c (vec_sub (velocity b) k)) = valof (c (velocity b)) - valof (c k)"
    using v Cons.prems(3) by (simp add: component_simps)
  show ?case
    using Cons.IH [OF rest Cons.prems(2,3)] fb
    by (simp add: fin_bodies_def mass_sum_def momentum_sum_def cv algebra_simps)
qed

lemma correction_exact:
  assumes "fin_bodies bodies" "mass_sum bodies \<noteq> 0"
  shows "fin_vec (correction bodies)"
    and "c \<in> {x, y, z} \<Longrightarrow> valof (c (correction bodies)) = momentum_sum c bodies / mass_sum bodies"
proof -
  have m: "is_finite (totalMass bodies)" "valof (totalMass bodies) \<noteq> 0"
    using assms by (simp_all add: totalMass_exact)
  show "fin_vec (correction bodies)"
    unfolding correction_def using m totalMomentum_finite [OF assms(1)] by simp
  show "valof (c (correction bodies)) = momentum_sum c bodies / mass_sum bodies" if "c \<in> {x, y, z}"
    unfolding correction_def using that assms
    by (simp add: component_simps totalMomentum_exact totalMass_exact)
qed

lemma enforceBarycenter_exact:
  assumes "fin_bodies bodies" "mass_sum bodies \<noteq> 0"
  shows "fin_bodies (enforceBarycenter bodies)"
    and "mass_sum (enforceBarycenter bodies) = mass_sum bodies"
    and "c \<in> {x, y, z} \<Longrightarrow> momentum_sum c (enforceBarycenter bodies) = 0"
proof -
  have k: "fin_vec (correction bodies)"
    using assms by (rule correction_exact)
  show "fin_bodies (enforceBarycenter bodies)"
    unfolding enforceBarycenter_def
    using shift_velocity_sums [OF assms(1) k, of x] by simp
  show "mass_sum (enforceBarycenter bodies) = mass_sum bodies"
    unfolding enforceBarycenter_def
    using shift_velocity_sums [OF assms(1) k, of x] by simp
  show "momentum_sum c (enforceBarycenter bodies) = 0" if "c \<in> {x, y, z}"
    unfolding enforceBarycenter_def
    using shift_velocity_sums [OF assms(1) k that] assms(2) correction_exact(2) [OF assms that]
    by simp
qed

lemma totalMomentum_enforceBarycenter:
  assumes "fin_bodies bodies" "mass_sum bodies \<noteq> 0"
  shows "totalMomentum (enforceBarycenter bodies) = vec_zero"
proof (rule vec_eqI)
  fix c :: "Vec3 \<Rightarrow> double"
  assume c: "c \<in> {x, y, z}"
  show "c (totalMomentum (enforceBarycenter bodies)) = c vec_zero"
    using c enforceBarycenter_exact [OF assms]
    by (simp add: totalMomentum_exact component_zero zero_double_def)
qed

lemma vec_sub_zero: "fin_vec v \<Longrightarrow> vec_sub v vec_zero = v"
  by (auto simp: fin_vec_def vec_sub_def vec_zero_def zero_double_def is_finite_iff)

lemma correction_enforceBarycenter:
  assumes "fin_bodies bodies" "mass_sum bodies \<noteq> 0"
  shows "correction (enforceBarycenter bodies) = vec_zero"
proof -
  have "totalMass (enforceBarycenter bodies) = Fin (mass_sum bodies)"
    using enforceBarycenter_exact(1,2) [OF assms] by (simp add: totalMass_exact)
  then show ?thesis
    using assms(2)
    by (simp add: correction_def totalMomentum_enforceBarycenter [OF assms] vec_div_def
        vec_zero_def zero_double_def)
qed

lemma enforceBarycenter_twice:
  assumes "fin_bodies bodies" "mass_sum bodies \<noteq> 0"
  shows "enforceBarycenter (enforceBarycenter bodies) = enforceBarycenter bodies"
proof -
  have "fin_bodies (enforceBarycenter bodies)"
    using assms by (rule enforceBarycenter_exact)
  then have "map (\<lambda>b. b\<lparr>velocity := vec_sub (velocity b) vec_zero\<rparr>) (enforceBarycenter bodies)
      = enforceBarycenter bodies"
    by (intro map_idI) (simp add: fin_bodies_def list_all_iff fin_body_def vec_sub_zero)
  then show ?thesis
    by (subst enforceBarycenter_def) (simp add: correction_enforceBarycenter [OF assms])
qed

section \<open>Division by a total mass of zero\<close>

lemma divide_by_zero_nonfinite: "\<not> is_finite (a / Fin 0)"
  by (cases a) (simp_all add: divide_double_def signed_inf_def)

lemma minus_nonfinite: "\<not> is_finite k \<Longrightarrow> \<not> is_finite (a - k)"
  by (cases a; cases k) (simp_all add: minus_double_def)

lemma correction_nonfinite: "totalMass bodies = Fin 0 \<Longrightarrow> nonfinite_vec (correction bodies)"
  by (simp add: nonfinite_vec_def correction_def vec_div_def divide_by_zero_nonfinite)

lemma vec_sub_nonfinite: "nonfinite_vec k \<Longrightarrow> nonfinite_vec (vec_sub v k)"
  by (simp add: nonfinite_vec_def vec_sub_def minus_nonfinite)

section \<open>Sequences of calls\<close>

lemma velocityVerlet_step:
  "velocityVerlet oldAcc bodies = (map acceleration bodies, verlet_step bodies)"
  by (simp add: velocityVerlet_maps verlet_step_def)

lemma verlet_call_step: "verlet_call (oldAcc, bodies) = (map acceleration bodies, verlet_step bodies)"
  by (simp add: verlet_call_def velocityVerlet_step)

lemma verlet_calls_steps: "snd ((verlet_call ^^ n) (oldAcc, bodies)) = (verlet_step ^^ n) bodies"
proof (induction n arbitrary: oldAcc bodies)
  case 0
  show ?case by simp
next
  case (Suc n)
  have "(verlet_call ^^ Suc n) (oldAcc, bodies) =
      (verlet_call ^^ n) (map acceleration bodies, verlet_step bodies)"
    by (simp only: funpow_Suc_right o_apply verlet_call_step)
  then show ?case
    using Suc.IH [of "map acceleration bodies" "verlet_step bodies"]
    by (simp only: funpow_Suc_right o_apply)
qed

lemma interleaved_steps:
  "snd (interleaved schedule (oldAcc, a, b)) =
     ((verlet_step ^^ count_list schedule First) a, (verlet_step ^^ count_list schedule Second) b)"
proof (induction schedule arbitrary: oldAcc a b)
  case Nil
  show ?case by simp
next
  case (Cons s schedule)
  show ?case
  proof (cases s)
    case First
    then show ?thesis
      using Cons.IH [of "map acceleration a" "verlet_step a" b]
      by (simp add: velocityVerlet_step funpow_swap1)
  next
    case Second
    then show ?thesis
      using Cons.IH [of "map acceleration b" a "verlet_step b"]
      by (simp add: velocityVerlet_step funpow_swap1)
  qed
qed

lemma frames_funpow: "frames n s = (verlet_call ^^ (5 * n)) s"
proof (induction n arbitrary: s)
  case 0
  show ?case by simp
next
  case (Suc n)
  have five: "frame s = verlet_call (verlet_call (verlet_call (verlet_call (verlet_call s))))"
    by (simp add: frame_def substep_loop.simps)
  have "(verlet_call ^^ (5 * Suc n)) s = (verlet_call ^^ (5 * n + 5)) s"
    by (simp add: add.commute)
  also have "\<dots> = (verlet_call ^^ (5 * n)) ((verlet_call ^^ 5) s)"
    by (simp only: funpow_add o_apply)
  also have "(verlet_call ^^ 5) s = frame s"
    by (simp add: five numeral_eq_Suc)
  finally show ?case
    using Suc.IH [of "frame s"] by simp
qed

section \<open>Momentum through a call of velocityVerlet\<close>

lemma momentum_sum_cong:
  "map mass as = map mass bs \<Longrightarrow> map velocity as = map velocity bs \<Longrightarrow>
   momentum_sum c as = momentum_sum c bs"
proof (induction as arbitrary: bs)
  case Nil
  then show ?case by (simp add: momentum_sum_def)
next
  case (Cons a as)
  then obtain b bs' where bs: "bs = b # bs'"
    by (cases bs) simp_all
  with Cons.prems Cons.IH [of bs'] show ?case
    by (simp add: momentum_sum_def)
qed

lemma force_sum_cong:
  "map mass as = map mass bs \<Longrightarrow> map acceleration as = map acceleration bs \<Longrightarrow>
   force_sum c as = force_sum c bs"
proof (induction as arbitrary: bs)
  case Nil
  then show ?case by (simp add: force_sum_def)
next
  case (Cons a as)
  then obtain b bs' where bs: "bs = b # bs'"
    by (cases bs) simp_all
  with Cons.prems Cons.IH [of bs'] show ?case
    by (simp add: force_sum_def)
qed

lemma mass_sum_cong: "map mass as = map mass bs \<Longrightarrow> mass_sum as = mass_sum bs"
proof -
  assume "map mass as = map mass bs"
  then have "map (valof \<circ> mass) as = map (valof \<circ> mass) bs"
    by (metis map_map)
  then show ?thesis
    by (simp add: mass_sum_def comp_def)
qed

lemma finish_velocity_sums:
  "length bs = length news \<Longrightarrow> fin_bodies bs \<Longrightarrow> fin_bodies news \<Longrightarrow>
   map mass news = map mass bs \<Longrightarrow> c \<in> {x, y, z} \<Longrightarrow>
   fin_bodies (map2 finish_velocity (map acceleration bs) news)
   \<and> momentum_sum c (map2 finish_velocity (map acceleration bs) news) =
       momentum_sum c news + 1 / 2 * valof dt * (force_sum c bs + force_sum c news)"
proof (induction bs news rule: list_induct2)
  case Nil
  show ?case
    by (simp add: fin_bodies_def momentum_sum_def force_sum_def)
next
  case (Cons b bs n news)
  from Cons.prems have b: "fin_body b" and n: "fin_body n" and m: "mass n = mass b"
    and rest: "fin_bodies bs" "fin_bodies news" "map mass news = map mass bs"
    by (simp_all add: fin_bodies_def)
  have old: "fin_vec (acceleration b)"
    using b by (simp add: fin_body_def)
  have fn: "fin_body (finish_velocity (acceleration b) n)"
    using old n by (rule finish_velocity_finite)
  have v: "valof (c (velocity (finish_velocity (acceleration b) n))) =
      valof (c (velocity n))
        + 1 / 2 * (valof (c (acceleration b)) + valof (c (acceleration n))) * valof dt"
    using finish_velocity_exact [OF old n Cons.prems(4)] by simp
  show ?case
    using Cons.IH [OF rest Cons.prems(4)] fn
    by (simp add: fin_bodies_def momentum_sum_def force_sum_def v m algebra_simps)
qed

lemma verlet_step_sums:
  assumes "fin_bodies bodies" "c \<in> {x, y, z}"
  shows "fin_bodies (verlet_step bodies)"
    and "momentum_sum c (verlet_step bodies) =
           momentum_sum c bodies + 1 / 2 * valof dt * force_sum c bodies"
    and "force_sum c (verlet_step bodies) = 0"
    and "mass_sum (verlet_step bodies) = mass_sum bodies"
proof -
  let ?moved = "map advance_position bodies"
  let ?news = "computeAccelerations ?moved"
  have moved: "fin_bodies ?moved"
    using assms(1) by (intro fin_bodies_map advance_position_finite)
  have news: "fin_bodies ?news"
    using assms(1) by (rule fin_bodies_advance)
  have mass: "map mass ?news = map mass bodies"
    by (simp add: computeAccelerations_fields comp_def)
  have vel: "map velocity ?news = map velocity bodies"
    by (simp add: computeAccelerations_fields comp_def)
  have f0: "force_sum c ?news = 0"
    using moved assms(2) by (intro computeAccelerations_force_sum fin_bodies_reset)
  have len: "length bodies = length ?news"
    by simp
  note fin = finish_velocity_sums [OF len assms(1) news mass assms(2)]
  show "fin_bodies (verlet_step bodies)"
    using fin by (simp add: verlet_step_def)
  have "momentum_sum c ?news = momentum_sum c bodies"
    using mass vel by (rule momentum_sum_cong)
  then show "momentum_sum c (verlet_step bodies) =
      momentum_sum c bodies + 1 / 2 * valof dt * force_sum c bodies"
    using fin f0 by (simp add: verlet_step_def)
  have same: "map mass (verlet_step bodies) = map mass ?news"
    "map acceleration (verlet_step bodies) = map acceleration ?news"
    using len by (simp_all add: verlet_step_def list_eq_iff_nth_eq)
  show "force_sum c (verlet_step bodies) = 0"
    using force_sum_cong [OF same] f0 by simp
  show "mass_sum (verlet_step bodies) = mass_sum bodies"
    using mass_sum_cong [OF same(1)] mass_sum_cong [OF mass] by simp
qed

lemma totalMomentum_eqI:
  assumes "fin_bodies as" "fin_bodies bs"
    and "\<And>c. c \<in> {x, y, z} \<Longrightarrow> momentum_sum c as = momentum_sum c bs"
  shows "totalMomentum as = totalMomentum bs"
proof (rule vec_eqI)
  fix c :: "Vec3 \<Rightarrow> double"
  assume "c \<in> {x, y, z}"
  then show "c (totalMomentum as) = c (totalMomentum bs)"
    using assms by (simp add: totalMomentum_exact)
qed

lemma balanced_force_sum: "balanced bodies \<Longrightarrow> c \<in> {x, y, z} \<Longrightarrow> force_sum c bodies = 0"
  by (auto simp: balanced_def)

lemma balanced_step:
  assumes "balanced bodies"
  shows "balanced (verlet_step bodies)"
    and "totalMomentum (verlet_step bodies) = totalMomentum bodies"
    and "mass_sum (verlet_step bodies) = mass_sum bodies"
proof -
  have fin: "fin_bodies bodies"
    using assms by (simp add: balanced_def)
  show "balanced (verlet_step bodies)"
    using verlet_step_sums(1) [OF fin, of x] verlet_step_sums(3) [OF fin, of x]
      verlet_step_sums(3) [OF fin, of y] verlet_step_sums(3) [OF fin, of z]
    by (simp add: balanced_def)
  show "totalMomentum (verlet_step bodies) = totalMomentum bodies"
  proof (rule totalMomentum_eqI)
    show "fin_bodies (verlet_step bodies)"
      using verlet_step_sums(1) [OF fin, of x] by simp
    show "fin_bodies bodies"
      by (rule fin)
    show "momentum_sum c (verlet_step bodies) = momentum_sum c bodies" if "c \<in> {x, y, z}" for c
      using verlet_step_sums(2) [OF fin that] balanced_force_sum [OF assms that] by simp
  qed
  show "mass_sum (verlet_step bodies) = mass_sum bodies"
    using verlet_step_sums(4) [OF fin, of x] by simp
qed

lemma balanced_steps:
  "balanced bodies \<Longrightarrow>
   balanced ((verlet_step ^^ n) bodies)
   \<and> totalMomentum ((verlet_step ^^ n) bodies) = totalMomentum bodies"
proof (induction n)
  case 0
  then show ?case by simp
next
  case (Suc n)
  then show ?case
    using balanced_step(1,2) [of "(verlet_step ^^ n) bodies"] by simp
qed

lemma totals_reset: "foldl accumulate a (map reset_acceleration bodies) = foldl accumulate a bodies"
  by (induction bodies arbitrary: a) (simp_all add: accumulate_def)

lemma totalMass_reset: "totalMass (map reset_acceleration bodies) = totalMass bodies"
  by (simp add: totalMass_def totals_def totals_reset)

lemma initialise_balanced:
  assumes "fin_bodies (map reset_acceleration bodies)" "totalMass bodies \<noteq> Fin 0"
  shows "balanced (initialise bodies)"
    and "totalMomentum (initialise bodies) = vec_zero"
proof -
  let ?acc = "computeAccelerations bodies"
  have fin: "fin_bodies ?acc"
    using assms(1) by (rule computeAccelerations_finite)
  have "mass_sum ?acc = mass_sum (map reset_acceleration bodies)"
    by (intro mass_sum_cong) (simp add: computeAccelerations_fields comp_def)
  moreover have "Fin (mass_sum (map reset_acceleration bodies)) \<noteq> Fin 0"
    using assms totalMass_exact [of "map reset_acceleration bodies"] by (simp add: totalMass_reset)
  ultimately have nz: "mass_sum ?acc \<noteq> 0"
    by simp
  have f: "force_sum c (initialise bodies) = 0" if "c \<in> {x, y, z}" for c
  proof -
    have "force_sum c (initialise bodies) = force_sum c ?acc"
      unfolding initialise_def by (intro force_sum_cong) (simp_all add: enforceBarycenter_def)
    then show ?thesis
      using computeAccelerations_force_sum [OF assms(1) that] by simp
  qed
  show "balanced (initialise bodies)"
    using enforceBarycenter_exact(1) [OF fin nz] f by (simp add: balanced_def initialise_def)
  show "totalMomentum (initialise bodies) = vec_zero"
    unfolding initialise_def using fin nz by (rule totalMomentum_enforceBarycenter)
qed

section \<open>The example Systems\<close>

lemma fin_sun_earth: "fin_bodies sun_earth"
  by (simp add: sun_earth_def sun_def earth_def fin_bodies_def fin_body_def fin_vec_def vec_zero_def)

lemma totalMass_sun_earth: "totalMass sun_earth \<noteq> Fin 0"
  by (simp add: totalMass_def totals_def accumulate_def sun_earth_def sun_def earth_def)

lemma balanced_sun_earth: "balanced sun_earth"
  using fin_sun_earth
  by (simp add: balanced_def force_sum_def sun_earth_def sun_def earth_def vec_zero_def
      zero_double_def)

section \<open>Evaluating the rounding\<close>

text \<open>
  Between \<open>2\<^sup>e\<close> and \<open>2\<^sup>e\<^sup>+\<^sup>1\<close> the doubles are the multiples of \<open>2\<^sup>e\<^sup>-\<^sup>5\<^sup>2\<close>: with the exponent
  given, \<open>round64\<close> is a rounding to an integer.
\<close>

lemma pow2_powr: "pow2 e = 2 powr (of_int e)"
  by (simp add: pow2_def powr_int)

lemma round64_eval:
  assumes "pow2 e \<le> \<bar>r\<bar>" "\<bar>r\<bar> < pow2 (e + 1)"
  shows "round64 r = of_int (rne (r / pow2 (e - 52))) * pow2 (e - 52)"
proof -
  have "0 < pow2 e"
    by (simp add: pow2_powr)
  with assms(1) have pos: "0 < \<bar>r\<bar>"
    by linarith
  have "\<lfloor>log 2 \<bar>r\<bar>\<rfloor> = e"
    using assms pos by (subst floor_log_eq_powr_iff) (simp_all add: pow2_powr)
  with pos show ?thesis
    by (simp add: round64_def)
qed

lemma add64_Fin: "add64 (Fin a) (Fin b) = Fin (round64 (a + b))"
  by (simp add: add64_def)

lemma sub64_Fin: "sub64 (Fin a) (Fin b) = Fin (round64 (a - b))"
  by (simp add: sub64_def)

lemma mul64_Fin: "mul64 (Fin a) (Fin b) = Fin (round64 (a * b))"
  by (simp add: mul64_def)

lemma div64_Fin: "b \<noteq> 0 \<Longrightarrow> div64 (Fin a) (Fin b) = Fin (round64 (a / b))"
  by (simp add: div64_def)

lemma sqrt64_Fin: "0 \<le> a \<Longrightarrow> sqrt64 (Fin a) = Fin (round64 (sqrt a))"
  by (simp add: sqrt64_def)

section \<open>The pair step of the example, operation by operation\<close>

lemma ab_lit_tenth: "round64 (1 / 10) = 3602879701896397 / 2 ^ 55"
  by (subst round64_eval [of "- 4"]) (simp_all add: pow2_def rne_def)

lemma ab_lit_three_tenths: "round64 (3 / 10) = 5404319552844595 / 2 ^ 54"
  by (subst round64_eval [of "- 2"]) (simp_all add: pow2_def rne_def)

lemma ab_lit_EPS: "round64 (1 / 10 ^ 10) = 7737125245533627 / 2 ^ 86"
  by (subst round64_eval [of "- 34"]) (simp_all add: pow2_def rne_def)

lemma ab_lit_M_PI: "round64 (314159265358979323846 / 10 ^ 20) = 884279719003555 / 2 ^ 48"
  by (subst round64_eval [of 1]) (simp_all add: pow2_def rne_def)

lemma ab_sep_x: "sub64 (Fin 1) (Fin 0) = Fin 1"
  unfolding sub64_Fin by (subst round64_eval [of 0]) (simp_all add: pow2_def rne_def)

lemma ab_sep_y: "sub64 (Fin 2) (Fin 0) = Fin 2"
  unfolding sub64_Fin by (subst round64_eval [of 1]) (simp_all add: pow2_def rne_def)

lemma ab_sq_x: "mul64 (Fin 1) (Fin 1) = Fin 1"
  unfolding mul64_Fin by (subst round64_eval [of 0]) (simp_all add: pow2_def rne_def)

lemma ab_sq_y: "mul64 (Fin 2) (Fin 2) = Fin 4"
  unfolding mul64_Fin by (subst round64_eval [of 2]) (simp_all add: pow2_def rne_def)

lemma ab_sum_xy: "add64 (Fin 1) (Fin 4) = Fin 5"
  unfolding add64_Fin by (subst round64_eval [of 2]) (simp_all add: pow2_def rne_def)

lemma ab_sum_xyz: "add64 (Fin 5) (Fin 4) = Fin 9"
  unfolding add64_Fin by (subst round64_eval [of 3]) (simp_all add: pow2_def rne_def)

lemma ab_root: "sqrt64 (Fin 9) = Fin 3"
proof -
  have "sqrt 9 = (3::real)"
    using real_sqrt_abs [of 3] by simp
  then have "sqrt64 (Fin 9) = Fin (round64 3)"
    by (simp add: sqrt64_Fin)
  then show ?thesis
    by (subst (asm) round64_eval [of 1]) (simp_all add: pow2_def rne_def)
qed

lemma ab_dist: "add64 (Fin 3) (Fin (7737125245533627 / 2 ^ 86)) = Fin (1688849860320231 / 2 ^ 49)"
  unfolding add64_Fin by (subst round64_eval [of 1]) (simp_all add: pow2_def rne_def)

lemma ab_dist2: "mul64 (Fin (1688849860320231 / 2 ^ 49)) (Fin (1688849860320231 / 2 ^ 49)) = Fin (2533274790564789 / 2 ^ 48)"
  unfolding mul64_Fin by (subst round64_eval [of 3]) (simp_all add: pow2_def rne_def)

lemma ab_dist3: "mul64 (Fin (2533274790564789 / 2 ^ 48)) (Fin (1688849860320231 / 2 ^ 49)) = Fin (7599824371947695 / 2 ^ 48)"
  unfolding mul64_Fin by (subst round64_eval [of 4]) (simp_all add: pow2_def rne_def)

lemma ab_invDist3: "div64 (Fin 1) (Fin (7599824371947695 / 2 ^ 48)) = Fin (667199944728909 / 2 ^ 54)"
  by (subst div64_Fin, simp, subst round64_eval [of "- 5"]) (simp_all add: pow2_def rne_def)

lemma ab_four_pi: "mul64 (Fin 4) (Fin (884279719003555 / 2 ^ 48)) = Fin (884279719003555 / 2 ^ 46)"
  unfolding mul64_Fin by (subst round64_eval [of 3]) (simp_all add: pow2_def rne_def)

lemma ab_G_value: "mul64 (Fin (884279719003555 / 2 ^ 46)) (Fin (884279719003555 / 2 ^ 48)) = Fin (2778046668940015 / 2 ^ 46)"
  unfolding mul64_Fin by (subst round64_eval [of 5]) (simp_all add: pow2_def rne_def)

lemma ab_scale: "mul64 (Fin (2778046668940015 / 2 ^ 46)) (Fin (667199944728909 / 2 ^ 54)) = Fin (6584999510903017 / 2 ^ 52)"
  unfolding mul64_Fin by (subst round64_eval [of 0]) (simp_all add: pow2_def rne_def)

lemma ab_force_x: "mul64 (Fin 1) (Fin (6584999510903017 / 2 ^ 52)) = Fin (6584999510903017 / 2 ^ 52)"
  unfolding mul64_Fin by (subst round64_eval [of 0]) (simp_all add: pow2_def rne_def)

lemma ab_to_a: "mul64 (Fin (6584999510903017 / 2 ^ 52)) (Fin (5404319552844595 / 2 ^ 54)) = Fin (1975499853270905 / 2 ^ 52)"
  unfolding mul64_Fin by (subst round64_eval [of "- 2"]) (simp_all add: pow2_def rne_def)

lemma ab_acc_a: "add64 (Fin 0) (Fin (1975499853270905 / 2 ^ 52)) = Fin (1975499853270905 / 2 ^ 52)"
  unfolding add64_Fin by (subst round64_eval [of "- 2"]) (simp_all add: pow2_def rne_def)

lemma ab_to_b: "mul64 (Fin (6584999510903017 / 2 ^ 52)) (Fin (3602879701896397 / 2 ^ 55)) = Fin (2633999804361207 / 2 ^ 54)"
  unfolding mul64_Fin by (subst round64_eval [of "- 3"]) (simp_all add: pow2_def rne_def)

lemma ab_acc_b: "sub64 (Fin 0) (Fin (2633999804361207 / 2 ^ 54)) = Fin (- (2633999804361207 / 2 ^ 54))"
  unfolding sub64_Fin by (subst round64_eval [of "- 3"]) (simp_all add: pow2_def rne_def)

lemma ab_diff_a: "sub64 (Fin (1975499853270905 / 2 ^ 52)) (Fin 0) = Fin (1975499853270905 / 2 ^ 52)"
  unfolding sub64_Fin by (subst round64_eval [of "- 2"]) (simp_all add: pow2_def rne_def)

lemma ab_diff_b: "sub64 (Fin (- (2633999804361207 / 2 ^ 54))) (Fin 0) = Fin (- (2633999804361207 / 2 ^ 54))"
  unfolding sub64_Fin by (subst round64_eval [of "- 3"]) (simp_all add: pow2_def rne_def)

lemma ab_left: "mul64 (Fin (3602879701896397 / 2 ^ 55)) (Fin (1975499853270905 / 2 ^ 52)) = Fin (395099970654181 / 2 ^ 53)"
  unfolding mul64_Fin by (subst round64_eval [of "- 5"]) (simp_all add: pow2_def rne_def)

lemma ab_right: "mul64 (Fin (5404319552844595 / 2 ^ 54)) (Fin (- (2633999804361207 / 2 ^ 54))) = Fin (- (6321599530466897 / 2 ^ 57))"
  unfolding mul64_Fin by (subst round64_eval [of "- 5"]) (simp_all add: pow2_def rne_def)

lemma body_a_value:
  "body_a = \<lparr>mass = Fin (3602879701896397 / 2 ^ 55),
     position = \<lparr>x = Fin 0, y = Fin 0, z = Fin 0\<rparr>,
     velocity = \<lparr>x = Fin 0, y = Fin 0, z = Fin 0\<rparr>,
     acceleration = \<lparr>x = Fin 0, y = Fin 0, z = Fin 0\<rparr>\<rparr>"
  by (simp only: body_a_def ab_lit_tenth)

lemma body_b_value:
  "body_b = \<lparr>mass = Fin (5404319552844595 / 2 ^ 54),
     position = \<lparr>x = Fin 1, y = Fin 2, z = Fin 2\<rparr>,
     velocity = \<lparr>x = Fin 0, y = Fin 0, z = Fin 0\<rparr>,
     acceleration = \<lparr>x = Fin 0, y = Fin 0, z = Fin 0\<rparr>\<rparr>"
  by (simp only: body_b_def ab_lit_three_tenths)

lemma EPS64_value: "EPS64 = Fin (7737125245533627 / 2 ^ 86)"
  by (simp only: EPS64_def ab_lit_EPS)

lemma G64_value: "G64 = Fin (2778046668940015 / 2 ^ 46)"
  by (simp only: G64_def M_PI64_def ab_lit_M_PI ab_four_pi ab_G_value)

lemmas ab_steps =
  ab_sep_x ab_sep_y ab_sq_x ab_sq_y ab_sum_xy ab_sum_xyz
  ab_root ab_dist ab_dist2 ab_dist3 ab_invDist3 ab_scale
  ab_force_x ab_to_a ab_acc_a ab_to_b ab_acc_b ab_diff_a
  ab_diff_b ab_left ab_right

lemmas ab_values = body_a_value body_b_value EPS64_value G64_value

lemma ab_contribution_a:
  "x (contribution64 0 1 pair_ab 0) = Fin (1975499853270905 / 2 ^ 52)"
  by (simp add: contribution64_def pair_step64_def pair_force64_def norm64_def Let_def
      vec_sub64_def vec_add64_def vec_mul64_def scalar_mul64_def pair_ab_def
      ab_values [simplified] ab_steps [simplified])

lemma ab_contribution_b:
  "x (contribution64 0 1 pair_ab 1) = Fin (- (2633999804361207 / 2 ^ 54))"
  by (simp add: contribution64_def pair_step64_def pair_force64_def norm64_def Let_def
      vec_sub64_def vec_add64_def vec_mul64_def scalar_mul64_def pair_ab_def
      ab_values [simplified] ab_steps [simplified])

section \<open>The properties\<close>

text \<open>
  C1. One call of \<open>velocityVerlet\<close> advances every body by one step \<open>dt\<close> of the
  velocity-Verlet scheme. For every input, the call remembers the accelerations it was
  given, moves every position, recomputes the accelerations for the new positions with
  \<open>computeAccelerations\<close> and then finishes every velocity. In exact arithmetic the new
  position is \<open>position + velocity * dt + 1/2 * acceleration * dt\<^sup>2\<close> and the new velocity is
  \<open>velocity + 1/2 * (old acceleration + new acceleration) * dt\<close>, component by component;
  the mass stays as it was.
\<close>

theorem velocityVerlet_scheme:
  "velocityVerlet oldAcc bodies =
     (map acceleration bodies,
      map2 finish_velocity (map acceleration bodies)
        (computeAccelerations (map advance_position bodies)))
   \<and> (fin_bodies bodies \<longrightarrow> i < length bodies \<longrightarrow> c \<in> {x, y, z} \<longrightarrow>
       (let before = bodies ! i;
            recomputed = computeAccelerations (map advance_position bodies) ! i;
            after = snd (velocityVerlet oldAcc bodies) ! i
        in mass after = mass before
         \<and> c (position after) =
             Fin (valof (c (position before)) + valof (c (velocity before)) * valof dt
                  + 1 / 2 * valof (c (acceleration before)) * (valof dt)\<^sup>2)
         \<and> position recomputed = position after
         \<and> acceleration after = acceleration recomputed
         \<and> c (velocity after) =
             Fin (valof (c (velocity before))
                  + 1 / 2 * (valof (c (acceleration before)) + valof (c (acceleration recomputed)))
                    * valof dt)))"
proof (intro conjI impI)
  show "velocityVerlet oldAcc bodies =
     (map acceleration bodies,
      map2 finish_velocity (map acceleration bodies)
        (computeAccelerations (map advance_position bodies)))"
    by (rule velocityVerlet_maps)
next
  assume fin: "fin_bodies bodies" and i: "i < length bodies" and c: "c \<in> {x, y, z}"
  let ?new = "computeAccelerations (map advance_position bodies)"
  have b: "fin_body (bodies ! i)"
    using fin i by (rule fin_bodies_nth)
  have n: "fin_body (?new ! i)"
    using fin_bodies_advance [OF fin] i by (simp add: fin_bodies_nth)
  have after: "snd (velocityVerlet oldAcc bodies) ! i
      = finish_velocity (acceleration (bodies ! i)) (?new ! i)"
    using i by (simp add: velocityVerlet_maps)
  have m: "mass (?new ! i) = mass (bodies ! i)"
    and p: "position (?new ! i) = position (advance_position (bodies ! i))"
    and v: "velocity (?new ! i) = velocity (bodies ! i)"
    using i by (simp_all add: computeAccelerations_nth)
  have old: "fin_vec (acceleration (bodies ! i))"
    using b by (simp add: fin_body_def)
  show "let before = bodies ! i;
            recomputed = computeAccelerations (map advance_position bodies) ! i;
            after = snd (velocityVerlet oldAcc bodies) ! i
        in mass after = mass before
         \<and> c (position after) =
             Fin (valof (c (position before)) + valof (c (velocity before)) * valof dt
                  + 1 / 2 * valof (c (acceleration before)) * (valof dt)\<^sup>2)
         \<and> position recomputed = position after
         \<and> acceleration after = acceleration recomputed
         \<and> c (velocity after) =
             Fin (valof (c (velocity before))
                  + 1 / 2 * (valof (c (acceleration before)) + valof (c (acceleration recomputed)))
                    * valof dt)"
    unfolding Let_def after
    using finish_velocity_exact [OF old n c] advance_position_exact [OF b c]
    by (simp add: m p v)
qed

text \<open>
  The Earth of the example starts at \<open>(1, 0, 0)\<close> with velocity \<open>(0, 2\<pi>, 0)\<close> and no
  acceleration: one step moves it to \<open>y = 2\<pi> * dt = \<pi> / 1000\<close>.
\<close>

theorem velocityVerlet_scheme_witness:
  "fin_bodies sun_earth \<and> (1::nat) < length sun_earth \<and> y \<in> {x, y, z}
   \<and> y (position (snd (velocityVerlet [] sun_earth) ! 1)) = Fin (pi / 1000)"
proof -
  have i: "(1::nat) < length sun_earth"
    by (simp add: sun_earth_def)
  have c: "y \<in> {x, y, z}"
    by simp
  have e: "sun_earth ! Suc 0 = earth"
    by (simp add: sun_earth_def)
  from velocityVerlet_scheme [of "[]" sun_earth 1 y] fin_sun_earth i c
  have "y (position (snd (velocityVerlet [] sun_earth) ! 1)) =
      Fin (valof (y (position (sun_earth ! 1))) + valof (y (velocity (sun_earth ! 1))) * valof dt
           + 1 / 2 * valof (y (acceleration (sun_earth ! 1))) * (valof dt)\<^sup>2)"
    unfolding Let_def by blast
  also have "\<dots> = Fin (pi / 1000)"
    by (simp add: e earth_def dt_def vec_zero_def zero_double_def)
  finally show ?thesis
    using fin_sun_earth i by simp
qed



text \<open>
  C3, as the claim has it, fails: \<open>enforceBarycenter\<close> checks nothing and raises nothing.
  On a single body without mass the total mass is zero, the division \<open>0 / 0\<close> is carried
  out, and the call returns the body with a velocity of three NaNs; on no bodies at all
  it returns the empty list.
\<close>

theorem enforceBarycenter_zero_mass_counterexample:
  "totalMass [massless] = Fin 0
   \<and> enforceBarycenter [massless] = [massless\<lparr>velocity := \<lparr>x = NaN, y = NaN, z = NaN\<rparr>\<rparr>]
   \<and> totalMass [] = Fin 0 \<and> enforceBarycenter [] = []"
  by (simp add: enforceBarycenter_def correction_def totalMomentum_def totalMass_def totals_def
      accumulate_def massless_def vec_div_def vec_sub_def vec_add_def scalar_mul_def vec_zero_def
      zero_double_def divide_double_def minus_double_def)

text \<open>
  C3, amended. When the total mass is zero, \<open>enforceBarycenter\<close> returns normally, with as
  many bodies as it was given, and has divided by zero: every component of every
  velocity it returns is a NaN or an infinity.
\<close>

theorem enforceBarycenter_zero_mass:
  assumes "totalMass bodies = Fin 0"
  shows "length (enforceBarycenter bodies) = length bodies
    \<and> list_all (\<lambda>b. nonfinite_vec (velocity b)) (enforceBarycenter bodies)"
  using assms
  by (simp add: enforceBarycenter_def list_all_iff vec_sub_nonfinite correction_nonfinite)

theorem enforceBarycenter_zero_mass_witness:
  "totalMass [massless, massless] = Fin 0
   \<and> list_all (\<lambda>b. nonfinite_vec (velocity b)) (enforceBarycenter [massless, massless])"
proof -
  have "totalMass [massless, massless] = Fin 0"
    by (simp add: totalMass_def totals_def accumulate_def massless_def)
  with enforceBarycenter_zero_mass [of "[massless, massless]"] show ?thesis
    by blast
qed

text \<open>
  C4, as the claim has it, fails in the arithmetic of the program. The step of a pair
  adds \<open>m\<^sub>j * f\<close> to body \<open>i\<close> and \<open>- (m\<^sub>i * f)\<close> to body \<open>j\<close>, each product rounded, and the two
  products of the claim, \<open>m\<^sub>i * (m\<^sub>j * f)\<close> and \<open>m\<^sub>j * (m\<^sub>i * f)\<close>, are rounded once more. For
  a body of mass \<open>0.1\<close> at the origin and a body of mass \<open>0.3\<close> at \<open>(1, 2, 2)\<close> they differ
  along \<open>x\<close> by one unit in the last place: \<open>6321599530466896 / 2\<^sup>5\<^sup>7\<close> against
  \<open>6321599530466897 / 2\<^sup>5\<^sup>7\<close>, printed as \<open>0.04386490844489954\<close> and \<open>0.04386490844489955\<close>.
\<close>

theorem pairwise_third_law_counterexample:
  "mul64 (mass (pair_ab ! 0)) (x (contribution64 0 1 pair_ab 0))
     = Fin (6321599530466896 / 2 ^ 57)
   \<and> - mul64 (mass (pair_ab ! 1)) (x (contribution64 0 1 pair_ab 1))
     = Fin (6321599530466897 / 2 ^ 57)
   \<and> mul64 (mass (pair_ab ! 0)) (x (contribution64 0 1 pair_ab 0))
     \<noteq> - mul64 (mass (pair_ab ! 1)) (x (contribution64 0 1 pair_ab 1))"
proof -
  have m: "mass (pair_ab ! 0) = Fin (3602879701896397 / 2 ^ 55)"
    "mass (pair_ab ! 1) = Fin (5404319552844595 / 2 ^ 54)"
    by (simp_all add: pair_ab_def body_a_value body_b_value)
  show ?thesis
    unfolding m ab_contribution_a ab_contribution_b ab_left ab_right by simp
qed

text \<open>
  C4, amended. In exact arithmetic, in the step of every pair \<open>(i, j)\<close>, the mass of body
  \<open>i\<close> times what the step adds to the acceleration of body \<open>i\<close> is the negation of the mass
  of body \<open>j\<close> times what it adds to the acceleration of body \<open>j\<close>, whatever the earlier
  pairs have summed in: the two contributions are \<open>m\<^sub>j * f\<close> and \<open>- m\<^sub>i * f\<close> for the same \<open>f\<close>.
\<close>

theorem pairwise_third_law:
  assumes "fin_bodies bodies" and "i < j" and "j < length bodies" and "c \<in> {x, y, z}"
  shows "mass (bodies ! i) * c (contribution i j bodies i)
      = - (mass (bodies ! j) * c (contribution i j bodies j))
    \<and> c (contribution i j bodies i)
      = Fin (valof (mass (bodies ! j)) * valof (c (pair_force bodies i j)))
    \<and> c (contribution i j bodies j)
      = Fin (- (valof (mass (bodies ! i)) * valof (c (pair_force bodies i j))))"
proof -
  have "fin_body (bodies ! i)" "fin_body (bodies ! j)"
    using assms by (simp_all add: fin_bodies_nth)
  then obtain mi mj where m: "mass (bodies ! i) = Fin mi" "mass (bodies ! j) = Fin mj"
    by (auto simp: fin_body_def is_finite_iff)
  show ?thesis
    by (simp add: contribution_exact [OF assms] m)
qed

theorem pairwise_third_law_witness:
  "fin_bodies sun_earth \<and> (0::nat) < 1 \<and> 1 < length sun_earth \<and> x \<in> {x, y, z}
   \<and> mass (sun_earth ! 0) * x (contribution 0 1 sun_earth 0)
       = - (mass (sun_earth ! 1) * x (contribution 0 1 sun_earth 1))"
proof -
  have j: "1 < length sun_earth"
    by (simp add: sun_earth_def)
  have c: "x \<in> {x, y, z}"
    by simp
  have i: "(0::nat) < 1"
    by simp
  from pairwise_third_law [OF fin_sun_earth i j c] fin_sun_earth i j c show ?thesis
    by blast
qed

text \<open>
  C5. In exact arithmetic the integration conserves the total momentum
  \<open>\<Sum> mass\<^sub>i * velocity\<^sub>i\<close>. The mass-weighted accelerations that \<open>computeAccelerations\<close>
  produces sum to zero. A call of \<open>velocityVerlet\<close> adds to the momentum half a step of
  the mass-weighted sum of the accelerations it is entered with: entered with
  accelerations that sum to zero (and finite values), it leaves the total momentum
  exactly as it was and leaves such accelerations behind, for the next call. So, from
  the state \<open>main\<close> starts with (\<open>computeAccelerations\<close>, then \<open>enforceBarycenter\<close>, on
  finite masses, positions and velocities with a total mass other than zero; the
  accelerations, which \<open>main\<close> leaves uninitialised, may hold anything), the total
  momentum is the zero vector after any number of calls and after any number of frames.
\<close>

theorem momentum_conserved:
  "(fin_bodies (map reset_acceleration bodies) \<longrightarrow> c \<in> {x, y, z} \<longrightarrow>
      force_sum c (computeAccelerations bodies) = 0)
   \<and> (fin_bodies bodies \<longrightarrow> c \<in> {x, y, z} \<longrightarrow>
      momentum_sum c (snd (velocityVerlet oldAcc bodies)) =
        momentum_sum c bodies + 1 / 2 * valof dt * force_sum c bodies)
   \<and> (balanced bodies \<longrightarrow>
      totalMomentum (snd (velocityVerlet oldAcc bodies)) = totalMomentum bodies
      \<and> balanced (snd (velocityVerlet oldAcc bodies)))
   \<and> (fin_bodies (map reset_acceleration bodies) \<longrightarrow> totalMass bodies \<noteq> Fin 0 \<longrightarrow>
      balanced (initialise bodies)
      \<and> totalMomentum (snd ((verlet_call ^^ n) (oldAcc, initialise bodies)))
          = \<lparr>x = Fin 0, y = Fin 0, z = Fin 0\<rparr>
      \<and> totalMomentum (snd (frames n (oldAcc, initialise bodies)))
          = \<lparr>x = Fin 0, y = Fin 0, z = Fin 0\<rparr>)"
proof (intro conjI impI)
  assume "fin_bodies (map reset_acceleration bodies)" "c \<in> {x, y, z}"
  then show "force_sum c (computeAccelerations bodies) = 0"
    by (rule computeAccelerations_force_sum)
next
  assume "fin_bodies bodies" "c \<in> {x, y, z}"
  then show "momentum_sum c (snd (velocityVerlet oldAcc bodies)) =
      momentum_sum c bodies + 1 / 2 * valof dt * force_sum c bodies"
    using verlet_step_sums(2) [of bodies c] by (simp add: velocityVerlet_step)
next
  assume b: "balanced bodies"
  show "totalMomentum (snd (velocityVerlet oldAcc bodies)) = totalMomentum bodies"
    using balanced_step(2) [OF b] by (simp add: velocityVerlet_step)
  show "balanced (snd (velocityVerlet oldAcc bodies))"
    using balanced_step(1) [OF b] by (simp add: velocityVerlet_step)
next
  assume a: "fin_bodies (map reset_acceleration bodies)" "totalMass bodies \<noteq> Fin 0"
  show b: "balanced (initialise bodies)"
    using a by (rule initialise_balanced)
  have z: "totalMomentum (initialise bodies) = \<lparr>x = Fin 0, y = Fin 0, z = Fin 0\<rparr>"
    using initialise_balanced(2) [OF a] by (simp add: vec_zero_def zero_double_def)
  show "totalMomentum (snd ((verlet_call ^^ n) (oldAcc, initialise bodies)))
      = \<lparr>x = Fin 0, y = Fin 0, z = Fin 0\<rparr>"
    using balanced_steps [OF b, of n] z by (simp add: verlet_calls_steps)
  show "totalMomentum (snd (frames n (oldAcc, initialise bodies)))
      = \<lparr>x = Fin 0, y = Fin 0, z = Fin 0\<rparr>"
    using balanced_steps [OF b, of "5 * n"] z by (simp add: frames_funpow verlet_calls_steps)
qed

text \<open>
  The Sun and the Earth, with the accelerations at zero: a call keeps their momentum,
  and from the initial state of the driver it is zero after a thousand frames.
\<close>

theorem momentum_conserved_witness:
  "fin_bodies (map reset_acceleration sun_earth) \<and> x \<in> {x, y, z} \<and> balanced sun_earth
   \<and> totalMass sun_earth \<noteq> Fin 0
   \<and> fin_bodies sun_earth
   \<and> force_sum x (computeAccelerations sun_earth) = 0
   \<and> totalMomentum (snd (velocityVerlet [] sun_earth)) = totalMomentum sun_earth
   \<and> totalMomentum (snd (frames 1000 ([], initialise sun_earth)))
       = \<lparr>x = Fin 0, y = Fin 0, z = Fin 0\<rparr>"
proof -
  have r: "fin_bodies (map reset_acceleration sun_earth)"
    using fin_sun_earth by (rule fin_bodies_reset)
  have c: "x \<in> {x, y, z}"
    by simp
  from momentum_conserved [of sun_earth x "[]" 1000] r c balanced_sun_earth totalMass_sun_earth
    fin_sun_earth
  show ?thesis
    by blast
qed

text \<open>
  C6. On finite values with a total mass other than zero (so also when it is positive),
  the two accumulators of \<open>enforceBarycenter\<close> are the sums \<open>\<Sum> mass\<^sub>i\<close> and
  \<open>\<Sum> mass\<^sub>i * velocity\<^sub>i\<close>, the call subtracts their quotient from every velocity, and the
  total momentum of the bodies it returns is zero in exact arithmetic.
\<close>

theorem enforceBarycenter_zeroes_momentum:
  assumes "fin_bodies bodies" and "totalMass bodies \<noteq> Fin 0"
  shows "totalMass bodies = Fin (mass_sum bodies)
    \<and> totalMomentum bodies =
        \<lparr>x = Fin (momentum_sum x bodies), y = Fin (momentum_sum y bodies),
         z = Fin (momentum_sum z bodies)\<rparr>
    \<and> enforceBarycenter bodies =
        map (\<lambda>b. b\<lparr>velocity :=
              vec_sub (velocity b) (vec_div (totalMomentum bodies) (totalMass bodies))\<rparr>) bodies
    \<and> totalMomentum (enforceBarycenter bodies) = \<lparr>x = Fin 0, y = Fin 0, z = Fin 0\<rparr>
    \<and> momentum_sum x (enforceBarycenter bodies) = 0
    \<and> momentum_sum y (enforceBarycenter bodies) = 0
    \<and> momentum_sum z (enforceBarycenter bodies) = 0"
proof -
  have m: "totalMass bodies = Fin (mass_sum bodies)"
    using assms(1) by (rule totalMass_exact)
  with assms(2) have nz: "mass_sum bodies \<noteq> 0"
    by simp
  have p: "totalMomentum bodies =
      \<lparr>x = Fin (momentum_sum x bodies), y = Fin (momentum_sum y bodies),
       z = Fin (momentum_sum z bodies)\<rparr>"
    using totalMomentum_exact [OF assms(1), of x] totalMomentum_exact [OF assms(1), of y]
      totalMomentum_exact [OF assms(1), of z]
    by simp
  have e: "enforceBarycenter bodies =
      map (\<lambda>b. b\<lparr>velocity :=
            vec_sub (velocity b) (vec_div (totalMomentum bodies) (totalMass bodies))\<rparr>) bodies"
    by (simp add: enforceBarycenter_def correction_def)
  have z: "totalMomentum (enforceBarycenter bodies) = \<lparr>x = Fin 0, y = Fin 0, z = Fin 0\<rparr>"
    using totalMomentum_enforceBarycenter [OF assms(1) nz]
    by (simp add: vec_zero_def zero_double_def)
  have s: "momentum_sum x (enforceBarycenter bodies) = 0"
    "momentum_sum y (enforceBarycenter bodies) = 0"
    "momentum_sum z (enforceBarycenter bodies) = 0"
    using enforceBarycenter_exact(3) [OF assms(1) nz] by simp_all
  show ?thesis
    using m p e z s by blast
qed

theorem enforceBarycenter_zeroes_momentum_witness:
  "fin_bodies sun_earth \<and> totalMass sun_earth \<noteq> Fin 0
   \<and> totalMomentum (enforceBarycenter sun_earth) = \<lparr>x = Fin 0, y = Fin 0, z = Fin 0\<rparr>"
  using enforceBarycenter_zeroes_momentum [OF fin_sun_earth totalMass_sun_earth]
    fin_sun_earth totalMass_sun_earth
  by blast

text \<open>
  C7. On finite values with a total mass other than zero, a second call of
  \<open>enforceBarycenter\<close> changes nothing: the correction it computes is the zero vector.
\<close>

theorem enforceBarycenter_idempotent:
  assumes "fin_bodies bodies" and "totalMass bodies \<noteq> Fin 0"
  shows "enforceBarycenter (enforceBarycenter bodies) = enforceBarycenter bodies
    \<and> correction (enforceBarycenter bodies) = \<lparr>x = Fin 0, y = Fin 0, z = Fin 0\<rparr>"
proof -
  have nz: "mass_sum bodies \<noteq> 0"
    using assms totalMass_exact [of bodies] by simp
  show ?thesis
    using enforceBarycenter_twice [OF assms(1) nz] correction_enforceBarycenter [OF assms(1) nz]
    by (simp add: vec_zero_def zero_double_def)
qed

theorem enforceBarycenter_idempotent_witness:
  "fin_bodies sun_earth \<and> totalMass sun_earth \<noteq> Fin 0
   \<and> enforceBarycenter (enforceBarycenter sun_earth) = enforceBarycenter sun_earth"
  using enforceBarycenter_idempotent [OF fin_sun_earth totalMass_sun_earth]
    fin_sun_earth totalMass_sun_earth
  by blast

text \<open>
  C8. One frame of the window loop performs exactly five calls of \<open>velocityVerlet\<close>, one
  after the other on the state the previous call left, whatever the state is. The frame
  takes no measurement of time: nothing but the state enters it. So \<open>n\<close> frames perform
  \<open>5 * n\<close> calls.
\<close>

theorem frame_five_substeps:
  "frame s = verlet_call (verlet_call (verlet_call (verlet_call (verlet_call s))))
   \<and> frames n s = (verlet_call ^^ (5 * n)) s"
proof
  show "frame s = verlet_call (verlet_call (verlet_call (verlet_call (verlet_call s))))"
    by (simp add: frame_def substep_loop.simps)
  show "frames n s = (verlet_call ^^ (5 * n)) s"
    by (rule frames_funpow)
qed

text \<open>
  C9, as the claim has it, fails in its first half: the buffer is a \<open>static\<close> local of
  \<open>velocityVerlet\<close>, hidden from the caller and shared by all calls of the process. After a
  call for the Sun and the Earth it holds their two accelerations, and after a following
  call for another System it holds that System's one: the buffer the next call for the
  first System starts from depends on whether the second System was stepped in between.
\<close>

theorem shared_buffer_counterexample:
  "fst (interleaved [First] ([], sun_earth, [massless])) = [vec_zero, vec_zero]
   \<and> fst (interleaved [First, Second] ([], sun_earth, [massless])) = [vec_zero]
   \<and> fst (interleaved [First, Second] ([], sun_earth, [massless]))
       \<noteq> fst (interleaved [First] ([], sun_earth, [massless]))"
  by (simp add: velocityVerlet_step sun_earth_def sun_def earth_def massless_def)

text \<open>
  C9, amended. The buffer is shared, but every call resizes it to the number of bodies
  and overwrites every entry before it reads one. So the bodies a call returns depend on
  the bodies passed in and not on the buffer, and in any interleaving of the calls for
  two Systems, of any two sizes and from any buffer, each System ends where the same
  number of calls would have taken it alone.
\<close>

theorem buffer_independence:
  "snd (velocityVerlet oldAcc bodies) = snd (velocityVerlet oldAcc' bodies)
   \<and> fst (snd (interleaved schedule (oldAcc, a, b))) =
       snd ((verlet_call ^^ count_list schedule First) (oldAcc', a))
   \<and> snd (snd (interleaved schedule (oldAcc, a, b))) =
       snd ((verlet_call ^^ count_list schedule Second) (oldAcc'', b))"
  by (simp add: velocityVerlet_step interleaved_steps verlet_calls_steps)

text \<open>
  C10. \<open>enforceBarycenter\<close> writes velocities only: for every input, the bodies are as
  many as before and, in the same order, have the masses, positions and accelerations
  they had.
\<close>

theorem enforceBarycenter_frame:
  "length (enforceBarycenter bodies) = length bodies
   \<and> map mass (enforceBarycenter bodies) = map mass bodies
   \<and> map position (enforceBarycenter bodies) = map position bodies
   \<and> map acceleration (enforceBarycenter bodies) = map acceleration bodies"
  by (simp add: enforceBarycenter_def)

end
